theory Spec2Isabelle
  imports Complex_Main
begin

section \<open>Text, exceptions and decoded JSON\<close>

text \<open>
  A Python \<open>str\<close> is the list of its code points, a \<open>pystr\<close>; \<open>py\<close> turns a literal of
  this theory into one. \<open>str.strip\<close> removes the white space that Python's \<open>str\<close> knows,
  ASCII and beyond. \<open>str.lower\<close> follows the case tables of Unicode and is taken from
  the world below.
\<close>

type_synonym pystr = "int list"

definition cp :: "char \<Rightarrow> int" where
  "cp c = of_char c"

definition py :: "string \<Rightarrow> pystr" where
  "py s = map cp s"

definition NL :: int where
  "NL = 0x0A"

definition DQ :: int where
  "DQ = 0x22"

definition SQ :: int where
  "SQ = 0x27"

text \<open>
  The code points that \<open>str.isspace\<close> accepts, which \<open>str.strip()\<close> removes: the ASCII
  controls 9 to 13 and 28 to 31, the space, U+0085, U+00A0, U+1680, U+2000 to U+200A,
  U+2028, U+2029, U+202F, U+205F and U+3000.
\<close>

definition is_space :: "int \<Rightarrow> bool" where
  "is_space c =
     ((9 \<le> c \<and> c \<le> 13) \<or> (28 \<le> c \<and> c \<le> 32) \<or> c = 0x85 \<or> c = 0xA0 \<or> c = 0x1680
      \<or> (0x2000 \<le> c \<and> c \<le> 0x200A) \<or> c = 0x2028 \<or> c = 0x2029 \<or> c = 0x202F
      \<or> c = 0x205F \<or> c = 0x3000)"

definition lstrip :: "pystr \<Rightarrow> pystr" where
  "lstrip s = dropWhile is_space s"

definition rstrip :: "pystr \<Rightarrow> pystr" where
  "rstrip s = rev (dropWhile is_space (rev s))"

definition strip :: "pystr \<Rightarrow> pystr" where
  "strip s = rstrip (lstrip s)"

text \<open>\<open>sub in s\<close>: \<open>sub\<close> occurs in \<open>s\<close> as a contiguous piece.\<close>

fun contains :: "pystr \<Rightarrow> pystr \<Rightarrow> bool" where
  "contains sub [] = (sub = [])"
| "contains sub (c # cs) = (take (length sub) (c # cs) = sub \<or> contains sub cs)"

text \<open>\<open>s.split("\n")[0]\<close>: the text before the first newline (all of it when there is none).\<close>

definition first_line :: "pystr \<Rightarrow> pystr" where
  "first_line s = takeWhile (\<lambda>c. c \<noteq> NL) s"

text \<open>\<open>s.find(c)\<close> and \<open>s.rfind(c)\<close> for a one-character \<open>c\<close>: the index, or \<open>-1\<close>.\<close>

definition py_find :: "int \<Rightarrow> pystr \<Rightarrow> int" where
  "py_find c s = (if c \<in> set s then int (length (takeWhile (\<lambda>x. x \<noteq> c) s)) else - 1)"

definition py_rfind :: "int \<Rightarrow> pystr \<Rightarrow> int" where
  "py_rfind c s =
     (if c \<in> set s then int (length s) - 1 - int (length (takeWhile (\<lambda>x. x \<noteq> c) (rev s)))
      else - 1)"

text \<open>\<open>s[a:b]\<close> for \<open>0 \<le> a\<close> and \<open>0 \<le> b\<close>, the only slices the source takes by index.\<close>

definition slice :: "pystr \<Rightarrow> int \<Rightarrow> int \<Rightarrow> pystr" where
  "slice s a b = take (nat b - nat a) (drop (nat a) s)"

text \<open>\<open>str(n)\<close> of an integer, as an f-string prints it.\<close>

definition digit_char :: "nat \<Rightarrow> int" where
  "digit_char d = 48 + int d"

function show_nat :: "nat \<Rightarrow> pystr" where
  "show_nat n = (if n < 10 then [digit_char n] else show_nat (n div 10) @ [digit_char (n mod 10)])"
  by pat_completeness auto
termination
  by (relation "measure (\<lambda>n. n)") auto

declare show_nat.simps [simp del]

definition show_int :: "int \<Rightarrow> pystr" where
  "show_int i = (if i < 0 then cp (CHR ''-'') # show_nat (nat (- i)) else show_nat (nat i))"

text \<open>An exception is kept as the text \<open>str(e)\<close> gives, all that the handlers read.\<close>

datatype exn = Exception pystr

text \<open>
  What \<open>json.load\<close> and \<open>json.loads\<close> return: \<open>None\<close>, a bool, an int, a float, a
  \<open>str\<close>, a list, or a dict (kept in insertion order, one entry for each key).
\<close>

datatype pyfloat = Finite real | PosInf | NegInf | NaN

datatype json =
    JNull
  | JBool bool
  | JInt int
  | JFloat pyfloat
  | JStr pystr
  | JArr "json list"
  | JObj "(pystr \<times> json) list"

text \<open>\<open>d.get(key, default)\<close> on a dict.\<close>

definition dict_get :: "(pystr \<times> 'v) list \<Rightarrow> pystr \<Rightarrow> 'v \<Rightarrow> 'v" where
  "dict_get d k dflt = (case map_of d k of None \<Rightarrow> dflt | Some v \<Rightarrow> v)"

section \<open>backend/models.py\<close>

text \<open>
  The field \<open>id\<close> of \<open>Email\<close> is \<open>ident\<close> here. The dataclasses do not check
  their annotations, so a field holds whatever value the constructor is given. The
  record of an email therefore leaves open the type \<open>'i\<close> of the id and the type
  \<open>'s\<close> of the text fields: \<open>Email\<close> is the record at the annotated types
  (\<open>int\<close> and \<open>str\<close>), and \<open>load_inbox\<close>, which copies decoded JSON values into the
  fields unchecked, builds it at \<open>json\<close>. For the same reason the two fields of
  \<open>ActionItem\<close> that are copied out of decoded JSON hold the decoded value
  (\<open>JNull\<close> is \<open>None\<close>). The fields \<open>subject\<close> and \<open>body\<close> of \<open>DraftEmail\<close> are
  \<open>draft_subject\<close> and \<open>draft_body\<close>.
\<close>

record ('i, 's) Email_of =
  ident :: 'i
  from_addr :: 's
  to_addr :: 's
  subject :: 's
  body :: 's
  timestamp :: 's
  raw_folder :: 's
  category :: "pystr option"

type_synonym Email = "(int, pystr) Email_of"

record ActionItem =
  task :: json
  deadline :: json
  email_id :: int

record DraftEmail =
  original_email_id :: int
  draft_subject :: pystr
  draft_body :: pystr
  suggested_tone :: "pystr option"
  metadata :: "(pystr \<times> pystr option) list"
  created_at :: pystr

section \<open>The world outside the program\<close>

text \<open>
  The environment variables, the files, the clock and the remote chat endpoint are
  read from a \<open>world\<close>; so are three functions of Python itself: the decoder
  \<open>json.loads\<close>, \<open>str.lower\<close>, and \<open>str\<close> on a decoded float, list or dict. The theorems
  hold for whatever these return. A chat request answers with the message contents
  of its choices (\<open>None\<close> for a message without content) or raises; the answer may
  depend on the requests sent before. \<open>sent\<close> lists the requests handed to the
  endpoint. \<open>objects\<close> holds the Email objects of the program by address: an
  assignment to a field of an email changes the object at its address. Every request
  has temperature 0.7 and at most 1000 tokens; \<open>print\<close> and the calls that draw the
  page are left out.
\<close>

record request =
  req_api_key :: pystr
  req_model :: pystr
  req_system :: pystr
  req_user :: pystr

datatype file_state = NoFile | Unreadable exn | Text pystr

record world =
  environ :: "pystr \<Rightarrow> pystr option"
  files :: "pystr \<Rightarrow> file_state"
  now_isoformat :: pystr
  json_loads :: "pystr \<Rightarrow> exn + json"
  str_lower :: "pystr \<Rightarrow> pystr"
  str_of :: "json \<Rightarrow> pystr"
  chat_completions :: "request list \<Rightarrow> request \<Rightarrow> exn + pystr option list"
  sent :: "request list"
  objects :: "nat \<Rightarrow> Email"

text \<open>\<open>os.getenv(name, default)\<close>.\<close>

definition getenv :: "world \<Rightarrow> pystr \<Rightarrow> pystr \<Rightarrow> pystr" where
  "getenv w name dflt = (case environ w name of None \<Rightarrow> dflt | Some v \<Rightarrow> v)"

text \<open>\<open>x or y\<close> for an optional text \<open>x\<close>: \<open>None\<close> and the empty text are false.\<close>

definition str_or :: "pystr option \<Rightarrow> pystr \<Rightarrow> pystr" where
  "str_or x y = (case x of None \<Rightarrow> y | Some s \<Rightarrow> if s = [] then y else s)"

text \<open>The name Python prints for the type of a decoded value.\<close>

fun type_name :: "json \<Rightarrow> pystr" where
  "type_name JNull = py ''NoneType''"
| "type_name (JBool b) = py ''bool''"
| "type_name (JInt i) = py ''int''"
| "type_name (JFloat f) = py ''float''"
| "type_name (JStr s) = py ''str''"
| "type_name (JArr xs) = py ''list''"
| "type_name (JObj d) = py ''dict''"

text \<open>
  \<open>for x in v\<close> on a decoded value: the elements of a list, the keys of a dict, the
  characters of a text; anything else raises TypeError.
\<close>

fun py_iter :: "json \<Rightarrow> exn + json list" where
  "py_iter (JArr xs) = Inr xs"
| "py_iter (JObj d) = Inr (map (\<lambda>kv. JStr (fst kv)) d)"
| "py_iter (JStr s) = Inr (map (\<lambda>c. JStr [c]) s)"
| "py_iter v = Inl (Exception (SQ # type_name v @ SQ # py '' object is not iterable''))"

text \<open>The truth value of a decoded value, and \<open>str\<close> on it as an f-string prints it.\<close>

fun truthy :: "json \<Rightarrow> bool" where
  "truthy JNull = False"
| "truthy (JBool b) = b"
| "truthy (JInt i) = (i \<noteq> 0)"
| "truthy (JFloat f) = (f \<noteq> Finite 0)"
| "truthy (JStr s) = (s \<noteq> [])"
| "truthy (JArr xs) = (xs \<noteq> [])"
| "truthy (JObj d) = (d \<noteq> [])"

fun py_str :: "world \<Rightarrow> json \<Rightarrow> pystr" where
  "py_str w JNull = py ''None''"
| "py_str w (JBool b) = (if b then py ''True'' else py ''False'')"
| "py_str w (JInt i) = show_int i"
| "py_str w (JStr s) = s"
| "py_str w v = str_of w v"

text \<open>\<open>sep.join(parts)\<close>.\<close>

fun join :: "pystr \<Rightarrow> pystr list \<Rightarrow> pystr" where
  "join sep [] = []"
| "join sep [x] = x"
| "join sep (x # y # ys) = x @ sep @ join sep (y # ys)"

section \<open>backend/inbox_loader.py\<close>

text \<open>
  One pass of the loop body: \<open>item.get\<close> exists on a dict only, on any other value
  the attribute lookup raises and the item is skipped.
\<close>

definition email_of_item :: "json \<Rightarrow> exn + (json, json) Email_of" where
  "email_of_item item =
     (case item of
        JObj d \<Rightarrow>
          Inr \<lparr>ident = dict_get d (py ''id'') (JInt 0),
               from_addr = dict_get d (py ''from'') (JStr (py ''unknown@example.com'')),
               to_addr = dict_get d (py ''to'') (JStr (py ''user@company.com'')),
               subject = dict_get d (py ''subject'') (JStr (py ''No Subject'')),
               body = dict_get d (py ''body'') (JStr []),
               timestamp = dict_get d (py ''timestamp'') (JStr []),
               raw_folder = dict_get d (py ''raw_folder'') (JStr (py ''INBOX'')),
               category = None\<rparr>
      | _ \<Rightarrow> Inl (Exception (SQ # type_name item @ SQ # py '' object has no attribute ''
                                 @ SQ # py ''get'' @ [SQ])))"

fun load_items :: "json list \<Rightarrow> (json, json) Email_of list" where
  "load_items [] = []"
| "load_items (item # items) =
     (case email_of_item item of
        Inr email \<Rightarrow> email # load_items items
      | Inl e \<Rightarrow> load_items items)"

text \<open>
  The body of the outer \<open>try\<close>, and \<open>load_inbox\<close> with its handler. A file that exists
  and cannot be opened or read raises.
\<close>

definition load_inbox_try :: "world \<Rightarrow> pystr \<Rightarrow> exn + (json, json) Email_of list" where
  "load_inbox_try w path =
     (case files w path of
        NoFile \<Rightarrow> Inr []
      | Unreadable e \<Rightarrow> Inl e
      | Text t \<Rightarrow>
          (case json_loads w t of
             Inl e \<Rightarrow> Inl e
           | Inr data \<Rightarrow>
               (case py_iter data of
                  Inl e \<Rightarrow> Inl e
                | Inr items \<Rightarrow> Inr (load_items items))))"

definition load_inbox :: "world \<Rightarrow> pystr \<Rightarrow> exn + (json, json) Email_of list" where
  "load_inbox w path =
     (case load_inbox_try w path of
        Inr emails \<Rightarrow> Inr emails
      | Inl e \<Rightarrow> Inr [])"

fun get_email_by_id :: "Email list \<Rightarrow> int \<Rightarrow> Email option" where
  "get_email_by_id [] eid = None"
| "get_email_by_id (email # emails) eid =
     (if ident email = eid then Some email else get_email_by_id emails eid)"

section \<open>backend/prompts_manager.py\<close>

type_synonym prompts = "(pystr \<times> pystr) list"

definition get_default_prompts :: prompts where
  "get_default_prompts =
     [(py ''categorization'',
       py ''Categorize this email into one of: Important, Newsletter, Spam, To-Do. ''
       @ py ''To-Do emails must include a direct request requiring user action. ''
       @ py ''Respond with only the category name.''),
      (py ''action_item'',
       py ''Extract tasks from the email. Respond in JSON list format: [ { ''
       @ DQ # py ''task'' @ DQ # py '': '' @ DQ # py ''...'' @ DQ # py '', ''
       @ DQ # py ''deadline'' @ DQ # py '': '' @ DQ # py ''...'' @ DQ # py '' } ]. ''
       @ py ''If no tasks, return an empty list [].''),
      (py ''auto_reply'',
       py ''If the email is a meeting request, draft a polite, concise reply asking for ''
       @ py ''an agenda and proposing 1-2 time slots. Maintain a professional tone.''),
      (py ''summary'',
       py ''Summarize the following email in 2'' @ [0x2013]
       @ py ''3 bullet points, focusing on key information and any required actions.''),
      (py ''general_agent'',
       py ''You are an Email Productivity Agent helping the user manage their inbox. ''
       @ py ''Always use the stored prompts as behavioral instructions whenever relevant.'')]"

text \<open>A dict of texts as the Python value it is.\<close>

definition dict_value :: "prompts \<Rightarrow> json" where
  "dict_value d = JObj (map (\<lambda>kv. (fst kv, JStr (snd kv))) d)"

text \<open>
  \<open>load_prompts\<close> returns what \<open>json.load\<close> gave, whatever it is, so its result is a
  decoded value.
\<close>

definition load_prompts_try :: "world \<Rightarrow> pystr \<Rightarrow> exn + json" where
  "load_prompts_try w path =
     (case files w path of
        NoFile \<Rightarrow> Inr (dict_value get_default_prompts)
      | Unreadable e \<Rightarrow> Inl e
      | Text t \<Rightarrow>
          (case json_loads w t of
             Inl e \<Rightarrow> Inl e
           | Inr loaded \<Rightarrow> Inr loaded))"

definition load_prompts :: "world \<Rightarrow> pystr \<Rightarrow> exn + json" where
  "load_prompts w path =
     (case load_prompts_try w path of
        Inr loaded \<Rightarrow> Inr loaded
      | Inl e \<Rightarrow> Inr (dict_value get_default_prompts))"

text \<open>\<open>key in d\<close> for the value \<open>load_prompts\<close> returned.\<close>

fun has_key :: "json \<Rightarrow> pystr \<Rightarrow> bool" where
  "has_key (JObj d) k = (k \<in> fst ` set d)"
| "has_key v k = False"

definition template_keys :: "pystr list" where
  "template_keys =
     [py ''categorization'', py ''action_item'', py ''auto_reply'', py ''summary'',
      py ''general_agent'']"

section \<open>backend/llm_client.py\<close>

definition warning_sign :: pystr where
  "warning_sign = [0x26A0, 0xFE0F]"

definition no_api_key_message :: pystr where
  "no_api_key_message =
     warning_sign @ py '' Error: OPENAI_API_KEY not found in environment variables. ''
     @ py ''Please set it in your .env file or Streamlit secrets.''"

text \<open>
  The body of the \<open>try\<close>. \<open>not api_key\<close> holds for an unset and for an empty
  variable. \<open>choices[0]\<close> raises on an empty list, \<open>.strip()\<close> on a content that is
  \<open>None\<close>.
\<close>

definition call_llm_try ::
  "world \<Rightarrow> pystr \<Rightarrow> pystr \<Rightarrow> pystr option \<Rightarrow> (exn + pystr) \<times> world" where
  "call_llm_try w system_prompt user_content model =
     (case environ w (py ''OPENAI_API_KEY'') of
        None \<Rightarrow> (Inr no_api_key_message, w)
      | Some api_key \<Rightarrow>
          if api_key = [] then (Inr no_api_key_message, w)
          else
            let model_name = str_or model (getenv w (py ''MODEL_NAME'') (py ''gpt-4o-mini''));
                req = \<lparr>req_api_key = api_key, req_model = model_name,
                       req_system = system_prompt, req_user = user_content\<rparr>;
                w' = w\<lparr>sent := sent w @ [req]\<rparr>
            in (case chat_completions w (sent w) req of
                  Inl e \<Rightarrow> (Inl e, w')
                | Inr choices \<Rightarrow>
                    (case choices of
                       [] \<Rightarrow> (Inl (Exception (py ''list index out of range'')), w')
                     | content # others \<Rightarrow>
                         (case content of
                            None \<Rightarrow>
                              (Inl (Exception (SQ # py ''NoneType'' @ SQ
                                 # py '' object has no attribute '' @ SQ # py ''strip'' @ [SQ])), w')
                          | Some text \<Rightarrow> (Inr (strip text), w')))))"

text \<open>The handler: the message chosen from the text of the exception.\<close>

fun error_message :: "world \<Rightarrow> exn \<Rightarrow> pystr" where
  "error_message w (Exception error_msg) =
     (if contains (py ''authentication'') (str_lower w error_msg)
         \<or> contains (py ''api_key'') (str_lower w error_msg)
      then warning_sign
           @ py '' Authentication Error: Invalid API key. Please check your OPENAI_API_KEY.''
      else if contains (py ''rate_limit'') (str_lower w error_msg)
      then warning_sign
           @ py '' Rate Limit Error: Too many requests. Please wait a moment and try again.''
      else if contains (py ''model'') (str_lower w error_msg)
      then warning_sign
           @ py '' Model Error: The specified model may not be available. Error: '' @ error_msg
      else warning_sign @ py '' LLM Error: '' @ error_msg)"

definition call_llm ::
  "world \<Rightarrow> pystr \<Rightarrow> pystr \<Rightarrow> pystr option \<Rightarrow> (exn + pystr) \<times> world" where
  "call_llm w system_prompt user_content model =
     (case call_llm_try w system_prompt user_content model of
        (Inr text, w') \<Rightarrow> (Inr text, w')
      | (Inl e, w') \<Rightarrow> (Inr (error_message w' e), w'))"

definition call_llm_with_json ::
  "world \<Rightarrow> pystr \<Rightarrow> pystr \<Rightarrow> pystr option \<Rightarrow> (exn + pystr) \<times> world" where
  "call_llm_with_json w system_prompt user_content model =
     (let enhanced_system =
            system_prompt @ [NL, NL]
            @ py ''IMPORTANT: Respond with valid JSON only, no additional text.''
      in call_llm w enhanced_system user_content model)"

section \<open>backend/processors.py\<close>

text \<open>
  A call that raises ends the caller, outside a \<open>try\<close>, with the same exception:
  every operation returns an exception or a value, with the world it leaves. An
  operation is given the email as the value its object has at the call and reads the
  fields from it; whatever an operation writes is in the world it returns.
\<close>

definition subject_from_body :: "Email \<Rightarrow> pystr" where
  "subject_from_body email =
     py ''Subject: '' @ subject email @ [NL] @ py ''From: '' @ from_addr email @ [NL, NL]
     @ body email"

definition valid_categories :: "pystr list" where
  "valid_categories = [py ''Important'', py ''Newsletter'', py ''Spam'', py ''To-Do'']"

definition categorize_email :: "world \<Rightarrow> Email \<Rightarrow> prompts \<Rightarrow> (exn + pystr) \<times> world" where
  "categorize_email w email prompts =
     (let user_content = subject_from_body email;
          system_prompt = dict_get prompts (py ''categorization'') (py ''Categorize this email.'')
      in (case call_llm w system_prompt user_content None of
            (Inl e, w') \<Rightarrow> (Inl e, w')
          | (Inr response, w') \<Rightarrow>
              (let label = strip (first_line (strip response))
               in (Inr (if label \<notin> set valid_categories then py ''Important'' else label), w'))))"

text \<open>The loop that converts the decoded elements, skipping those that are no dict.\<close>

fun action_items_of :: "json list \<Rightarrow> int \<Rightarrow> ActionItem list" where
  "action_items_of [] eid = []"
| "action_items_of (task_dict # rest) eid =
     (case task_dict of
        JObj d \<Rightarrow>
          \<lparr>task = dict_get d (py ''task'') (JStr []),
           deadline = dict_get d (py ''deadline'') JNull,
           email_id = eid\<rparr> # action_items_of rest eid
      | _ \<Rightarrow> action_items_of rest eid)"

text \<open>The body of the \<open>try\<close> of \<open>extract_action_items\<close>.\<close>

definition parse_action_items :: "world \<Rightarrow> pystr \<Rightarrow> int \<Rightarrow> exn + ActionItem list" where
  "parse_action_items w response eid =
     (let json_start = py_find (cp (CHR ''['')) response;
          json_end = py_rfind (cp (CHR '']'')) response + 1;
          decoded = (if json_start \<ge> 0 \<and> json_end > json_start
                     then json_loads w (slice response json_start json_end)
                     else json_loads w response)
      in (case decoded of
            Inl e \<Rightarrow> Inl e
          | Inr tasks_data \<Rightarrow>
              (case py_iter tasks_data of
                 Inl e \<Rightarrow> Inl e
               | Inr elements \<Rightarrow> Inr (action_items_of elements eid))))"

text \<open>
  The text that \<open>parse_action_items\<close> hands to the decoder: from the first \<open>[\<close> to the
  last \<open>]\<close> when the last \<open>]\<close> comes after the first \<open>[\<close>, else the whole response.
\<close>

definition decoder_input :: "pystr \<Rightarrow> pystr" where
  "decoder_input response =
     (let json_start = py_find (cp (CHR ''['')) response;
          json_end = py_rfind (cp (CHR '']'')) response + 1
      in if json_start \<ge> 0 \<and> json_end > json_start
         then slice response json_start json_end
         else response)"

definition extract_action_items ::
  "world \<Rightarrow> Email \<Rightarrow> prompts \<Rightarrow> (exn + ActionItem list) \<times> world" where
  "extract_action_items w email prompts =
     (let user_content = subject_from_body email;
          system_prompt = dict_get prompts (py ''action_item'') (py ''Extract tasks from the email.'')
      in (case call_llm_with_json w system_prompt user_content None of
            (Inl e, w') \<Rightarrow> (Inl e, w')
          | (Inr response, w') \<Rightarrow>
              (case parse_action_items w' response (ident email) of
                 Inr action_items \<Rightarrow> (Inr action_items, w')
               | Inl e \<Rightarrow> (Inr [], w'))))"

definition subject_from_date_body :: "Email \<Rightarrow> pystr" where
  "subject_from_date_body email =
     py ''Subject: '' @ subject email @ [NL] @ py ''From: '' @ from_addr email @ [NL]
     @ py ''Date: '' @ timestamp email @ [NL, NL] @ body email"

definition summarize_email :: "world \<Rightarrow> Email \<Rightarrow> prompts \<Rightarrow> (exn + pystr) \<times> world" where
  "summarize_email w email prompts =
     (let user_content = subject_from_date_body email;
          system_prompt = dict_get prompts (py ''summary'') (py ''Summarize this email.'')
      in call_llm w system_prompt user_content None)"

text \<open>\<open>if user_tone\<close>: a tone that is given and not empty.\<close>

definition reply_system_prompt :: "prompts \<Rightarrow> pystr option \<Rightarrow> pystr" where
  "reply_system_prompt prompts user_tone =
     (let system_prompt = dict_get prompts (py ''auto_reply'') (py ''Draft a professional reply.'')
      in (case user_tone of
            None \<Rightarrow> system_prompt
          | Some tone \<Rightarrow>
              if tone = [] then system_prompt
              else system_prompt @ [NL, NL] @ py ''Tone: '' @ tone))"

definition reply_user_content :: "Email \<Rightarrow> pystr" where
  "reply_user_content email =
     py ''Original Email:'' @ [NL] @ subject_from_date_body email @ [NL, NL]
     @ py ''---'' @ [NL] @ py ''Draft a reply to this email.''"

definition draft_reply ::
  "world \<Rightarrow> Email \<Rightarrow> prompts \<Rightarrow> pystr option \<Rightarrow> (exn + DraftEmail) \<times> world" where
  "draft_reply w email prompts user_tone =
     (let user_content = reply_user_content email;
          system_prompt = reply_system_prompt prompts user_tone
      in (case call_llm w system_prompt user_content None of
            (Inl e, w') \<Rightarrow> (Inl e, w')
          | (Inr response, w') \<Rightarrow>
              (Inr \<lparr>original_email_id = ident email,
                    draft_subject = py ''Re: '' @ subject email,
                    draft_body = response,
                    suggested_tone = user_tone,
                    metadata = [(py ''original_from'', Some (from_addr email)),
                                (py ''original_subject'', Some (subject email)),
                                (py ''category'', category email)],
                    created_at = now_isoformat w'\<rparr>, w')))"

section \<open>backend/agent.py\<close>

text \<open>\<open>d[k] = v\<close> on a dict in insertion order.\<close>

fun dict_set :: "(pystr \<times> 'v) list \<Rightarrow> pystr \<Rightarrow> 'v \<Rightarrow> (pystr \<times> 'v) list" where
  "dict_set [] k v = [(k, v)]"
| "dict_set (kv # d) k v = (if fst kv = k then (k, v) # d else kv # dict_set d k v)"

definition email_context_of :: "Email option \<Rightarrow> pystr" where
  "email_context_of selected_email =
     (case selected_email of
        None \<Rightarrow> []
      | Some email \<Rightarrow>
          [NL] @ py ''Currently Selected Email:'' @ [NL]
          @ py ''ID: '' @ show_int (ident email) @ [NL]
          @ py ''From: '' @ from_addr email @ [NL]
          @ py ''Subject: '' @ subject email @ [NL]
          @ py ''Category: '' @ str_or (category email) (py ''Uncategorized'') @ [NL]
          @ py ''Date: '' @ timestamp email @ [NL, NL]
          @ py ''Body:'' @ [NL] @ body email @ [NL])"

fun count_categories :: "Email list \<Rightarrow> (pystr \<times> nat) list \<Rightarrow> (pystr \<times> nat) list" where
  "count_categories [] categories = categories"
| "count_categories (email # rest) categories =
     (let cat = str_or (category email) (py ''Uncategorized'')
      in count_categories rest (dict_set categories cat (dict_get categories cat 0 + 1)))"

definition inbox_overview_of :: "Email list \<Rightarrow> pystr" where
  "inbox_overview_of inbox =
     [NL] @ py ''Total emails in inbox: '' @ show_nat (length inbox) @ [NL]
     @ (if inbox \<noteq> []
        then py ''Categories: ''
             @ join (py '', '') (map (\<lambda>kv. fst kv @ py '': '' @ show_nat (snd kv))
                                (count_categories inbox []))
        else [])"

definition agent_system_prompt :: "prompts \<Rightarrow> pystr" where
  "agent_system_prompt prompts =
     dict_get prompts (py ''general_agent'') (py ''You are an Email Productivity Agent.'')
     @ [NL, NL] @ py ''Available capabilities:'' @ [NL]
     @ py ''- Summarize emails'' @ [NL]
     @ py ''- Extract action items and tasks'' @ [NL]
     @ py ''- Draft replies'' @ [NL]
     @ py ''- Categorize emails (Important, Newsletter, Spam, To-Do)'' @ [NL]
     @ py ''- Filter and search emails'' @ [NL, NL]
     @ py ''When asked about tasks or to-dos, check if emails are categorized as ''
     @ DQ # py ''To-Do'' @ DQ # py ''.'' @ [NL]
     @ py ''When asked about urgent emails, look for '' @ DQ # py ''Important'' @ DQ
       # py '' category.'' @ [NL]
     @ py ''Be helpful, concise, and actionable.'' @ [NL]"

definition agent_user_message :: "pystr \<Rightarrow> Email option \<Rightarrow> Email list \<Rightarrow> pystr" where
  "agent_user_message user_query selected_email inbox =
     inbox_overview_of inbox @ [NL, NL] @ email_context_of selected_email @ [NL, NL]
     @ py ''User Query: '' @ user_query"

text \<open>
  The tests of the four patterns, on the lowered query. The first two are asked only
  when an email is selected; each is two nested \<open>if\<close>s, passed over when either
  fails.
\<close>

definition summarize_pattern :: "pystr \<Rightarrow> bool" where
  "summarize_pattern query_lower =
     ((contains (py ''summarize'') query_lower \<or> contains (py ''summary'') query_lower)
      \<and> (contains (py ''this'') query_lower \<or> contains (py ''email'') query_lower))"

definition tasks_pattern :: "pystr \<Rightarrow> bool" where
  "tasks_pattern query_lower =
     ((contains (py ''task'') query_lower \<or> contains (py ''to-do'') query_lower
       \<or> contains (py ''action'') query_lower)
      \<and> (contains (py ''this'') query_lower \<or> contains (py ''email'') query_lower))"

definition important_pattern :: "pystr \<Rightarrow> bool" where
  "important_pattern query_lower =
     (contains (py ''urgent'') query_lower \<or> contains (py ''important'') query_lower)"

definition todo_pattern :: "pystr \<Rightarrow> bool" where
  "todo_pattern query_lower =
     (contains (py ''to-do'') query_lower \<or> contains (py ''todo'') query_lower)"

definition task_line :: "world \<Rightarrow> ActionItem \<Rightarrow> pystr" where
  "task_line w action =
     py ''- '' @ py_str w (task action)
     @ (if truthy (deadline action)
        then py '' (Due: '' @ py_str w (deadline action) @ py '')''
        else [])"

definition email_line :: "Email \<Rightarrow> pystr" where
  "email_line email =
     py ''- **ID '' @ show_int (ident email) @ py ''**: '' @ subject email
     @ py '' (from '' @ from_addr email @ py '')'' @ [NL]"

text \<open>The answer that lists the emails of one category, five at most.\<close>

definition listing :: "pystr \<Rightarrow> Email list \<Rightarrow> pystr" where
  "listing heading found =
     heading @ show_nat (length found) @ py ''):**'' @ [NL, NL]
     @ concat (map email_line (take 5 found))
     @ (if length found > 5
        then [NL] @ py ''... and '' @ show_nat (length found - 5) @ py '' more''
        else [])"

definition important_heading :: pystr where
  "important_heading = [0x1F534] @ py '' **Important Emails (''"

definition todo_heading :: pystr where
  "todo_heading = [0x1F4CB] @ py '' **To-Do Emails (''"

text \<open>
  The patterns that do not need a selected email, and the general query that is left
  when none matches.
\<close>

definition inbox_patterns ::
  "world \<Rightarrow> pystr \<Rightarrow> pystr \<Rightarrow> pystr \<Rightarrow> Email list \<Rightarrow> (exn + pystr) \<times> world" where
  "inbox_patterns w query_lower system_prompt user_message inbox =
     (if important_pattern query_lower then
        (let important_emails = filter (\<lambda>e. category e = Some (py ''Important'')) inbox
         in if important_emails \<noteq> [] then (Inr (listing important_heading important_emails), w)
            else (Inr (py ''No emails marked as Important.''), w))
      else if todo_pattern query_lower then
        (let todo_emails = filter (\<lambda>e. category e = Some (py ''To-Do'')) inbox
         in if todo_emails \<noteq> [] then (Inr (listing todo_heading todo_emails), w)
            else (Inr (py ''No emails categorized as To-Do.''), w))
      else call_llm w system_prompt user_message None)"

definition run_agent_query ::
  "world \<Rightarrow> pystr \<Rightarrow> Email option \<Rightarrow> prompts \<Rightarrow> Email list \<Rightarrow> (exn + pystr) \<times> world" where
  "run_agent_query w user_query selected_email prompts inbox =
     (let system_prompt = agent_system_prompt prompts;
          user_message = agent_user_message user_query selected_email inbox;
          query_lower = str_lower w user_query
      in (case selected_email of
            None \<Rightarrow> inbox_patterns w query_lower system_prompt user_message inbox
          | Some email \<Rightarrow>
              if summarize_pattern query_lower then
                (case summarize_email w email prompts of
                   (Inl e, w') \<Rightarrow> (Inl e, w')
                 | (Inr summary, w') \<Rightarrow>
                     (Inr ([0x1F4E7] @ py '' **Summary of Email #''
                           @ show_int (ident email) @ py '':**'' @ [NL, NL] @ summary), w'))
              else if tasks_pattern query_lower then
                (case extract_action_items w email prompts of
                   (Inl e, w') \<Rightarrow> (Inl e, w')
                 | (Inr actions, w') \<Rightarrow>
                     if actions \<noteq> [] then
                       (Inr ([0x2705] @ py '' **Tasks from Email #''
                             @ show_int (ident email) @ py '':**'' @ [NL, NL]
                             @ join [NL] (map (task_line w') actions)), w')
                     else (Inr (py ''No specific tasks found in this email.''), w'))
              else inbox_patterns w query_lower system_prompt user_message inbox))"

section \<open>app.py: process_all_emails\<close>

text \<open>
  The part of the session that \<open>process_all_emails\<close> reads and writes. The list of
  the session holds the emails by address; the objects are in the world.
\<close>

record session =
  ss_emails :: "nat list"
  ss_prompts :: prompts
  ss_processed :: "int \<Rightarrow> (pystr \<times> ActionItem list) option"
  ss_api_key_set :: bool

text \<open>The assignment \<open>email.category = category\<close> to the object at an address.\<close>

definition assign_category :: "world \<Rightarrow> nat \<Rightarrow> pystr \<Rightarrow> world" where
  "assign_category w ref label =
     w\<lparr>objects := (objects w)(ref := (objects w ref)\<lparr>category := Some label\<rparr>)\<rparr>"

text \<open>
  The loop over the emails: the results stored by id, and the world with the objects
  as the pass leaves them. Each call is given the object as it is at that moment. An
  exception would leave the loop where it is raised.
\<close>

fun process_emails ::
  "world \<Rightarrow> prompts \<Rightarrow> (int \<Rightarrow> (pystr \<times> ActionItem list) option) \<Rightarrow> nat list \<Rightarrow>
     (exn + unit) \<times> (int \<Rightarrow> (pystr \<times> ActionItem list) option) \<times> world" where
  "process_emails w prompts processed [] = (Inr (), processed, w)"
| "process_emails w prompts processed (ref # rest) =
     (case categorize_email w (objects w ref) prompts of
        (Inl e, w1) \<Rightarrow> (Inl e, processed, w1)
      | (Inr label, w1) \<Rightarrow>
          (case extract_action_items w1 (objects w1 ref) prompts of
             (Inl e, w2) \<Rightarrow> (Inl e, processed, w2)
           | (Inr actions, w2) \<Rightarrow>
               process_emails (assign_category w2 ref label) prompts
                 (processed(ident (objects w2 ref) \<mapsto> (label, actions))) rest))"

definition process_all_emails :: "session \<Rightarrow> world \<Rightarrow> (exn + unit) \<times> session \<times> world" where
  "process_all_emails st w =
     (if \<not> ss_api_key_set st then (Inr (), st, w)
      else
        (case process_emails w (ss_prompts st) (ss_processed st) (ss_emails st) of
           (r, processed', w') \<Rightarrow> (r, st\<lparr>ss_processed := processed'\<rparr>, w')))"

section \<open>The specification's wording of the label\<close>

text \<open>
  The specification describes the label of \<open>categorize\<close> in its own words: take the
  first line of the response, trim white space, and fall back to \<open>Important\<close> when the
  result is none of the four labels. \<open>categorize_email\<close> above trims the response first.
\<close>

definition spec_category :: "pystr \<Rightarrow> pystr" where
  "spec_category response =
     (let label = strip (first_line response)
      in if label \<in> set valid_categories then label else py ''Important'')"

section \<open>A decoder and worlds for the examples\<close>

text \<open>
  The examples need a decoder to run. \<open>decode_fragment\<close> decodes the JSON texts made of
  \<open>null\<close>, \<open>true\<close>, \<open>false\<close>, integers, texts without escapes, arrays and objects, as
  \<open>json.loads\<close> does, and rejects every other text (also what \<open>json.loads\<close> accepts
  beyond these: a number with a fraction or an exponent, \<open>NaN\<close>, \<open>Infinity\<close>, a text
  with an escape). It is used at the concrete texts of the examples only; no theorem
  about all inputs depends on it.
\<close>

definition is_json_ws :: "int \<Rightarrow> bool" where
  "is_json_ws c = (c = 0x20 \<or> c = 0x09 \<or> c = 0x0A \<or> c = 0x0D)"

definition skip_ws :: "pystr \<Rightarrow> pystr" where
  "skip_ws s = dropWhile is_json_ws s"

definition is_digit :: "int \<Rightarrow> bool" where
  "is_digit c = (48 \<le> c \<and> c \<le> 57)"

definition digits_value :: "pystr \<Rightarrow> nat" where
  "digits_value ds = foldl (\<lambda>acc c. 10 * acc + nat (c - 48)) 0 ds"

fun scan_string :: "pystr \<Rightarrow> (pystr \<times> pystr) option" where
  "scan_string [] = None"
| "scan_string (c # cs) =
     (if c = DQ then Some ([], cs)
      else if c = 0x5C \<or> c < 32 then None
      else (case scan_string cs of
              None \<Rightarrow> None
            | Some (s, rest) \<Rightarrow> Some (c # s, rest)))"

definition scan_int :: "pystr \<Rightarrow> (json \<times> pystr) option" where
  "scan_int s =
     (let negative = (s \<noteq> [] \<and> hd s = cp (CHR ''-''));
          s1 = (if negative then tl s else s);
          ds = takeWhile is_digit s1;
          rest = dropWhile is_digit s1
      in if ds = [] \<or> (length ds > 1 \<and> hd ds = cp (CHR ''0'')) then None
         else if rest \<noteq> [] \<and> hd rest \<in> {cp (CHR ''.''), cp (CHR ''e''), cp (CHR ''E'')} then None
         else Some (JInt (if negative then - int (digits_value ds) else int (digits_value ds)),
                    rest))"

fun parse_value :: "nat \<Rightarrow> pystr \<Rightarrow> (json \<times> pystr) option"
  and parse_elements :: "nat \<Rightarrow> pystr \<Rightarrow> (json list \<times> pystr) option"
  and parse_members :: "nat \<Rightarrow> pystr \<Rightarrow> ((pystr \<times> json) list \<times> pystr) option" where
  "parse_value 0 s = None"
| "parse_value (Suc n) s =
     (case skip_ws s of
        [] \<Rightarrow> None
      | c # r \<Rightarrow>
          if take 4 (c # r) = py ''null'' then Some (JNull, drop 4 (c # r))
          else if take 4 (c # r) = py ''true'' then Some (JBool True, drop 4 (c # r))
          else if take 5 (c # r) = py ''false'' then Some (JBool False, drop 5 (c # r))
          else if c = DQ then
            (case scan_string r of
               None \<Rightarrow> None
             | Some (t, rest) \<Rightarrow> Some (JStr t, rest))
          else if c = cp (CHR ''['') then
            (if skip_ws r \<noteq> [] \<and> hd (skip_ws r) = cp (CHR '']'')
             then Some (JArr [], tl (skip_ws r))
             else (case parse_elements n r of
                     None \<Rightarrow> None
                   | Some (xs, rest) \<Rightarrow> Some (JArr xs, rest)))
          else if c = cp (CHR ''{'') then
            (if skip_ws r \<noteq> [] \<and> hd (skip_ws r) = cp (CHR ''}'')
             then Some (JObj [], tl (skip_ws r))
             else (case parse_members n r of
                     None \<Rightarrow> None
                   | Some (kvs, rest) \<Rightarrow>
                       Some (JObj (foldl (\<lambda>d kv. dict_set d (fst kv) (snd kv)) [] kvs), rest)))
          else scan_int (c # r))"
| "parse_elements 0 s = None"
| "parse_elements (Suc n) s =
     (case parse_value n s of
        None \<Rightarrow> None
      | Some (v, r) \<Rightarrow>
          (case skip_ws r of
             [] \<Rightarrow> None
           | c # r' \<Rightarrow>
               if c = cp (CHR '']'') then Some ([v], r')
               else if c = cp (CHR '','') then
                 (case parse_elements n r' of
                    None \<Rightarrow> None
                  | Some (vs, rest) \<Rightarrow> Some (v # vs, rest))
               else None))"
| "parse_members 0 s = None"
| "parse_members (Suc n) s =
     (case skip_ws s of
        [] \<Rightarrow> None
      | c # r \<Rightarrow>
          if c \<noteq> DQ then None
          else
            (case scan_string r of
               None \<Rightarrow> None
             | Some (k, r1) \<Rightarrow>
                 (case skip_ws r1 of
                    [] \<Rightarrow> None
                  | c1 # r2 \<Rightarrow>
                      if c1 \<noteq> cp (CHR '':'') then None
                      else
                        (case parse_value n r2 of
                           None \<Rightarrow> None
                         | Some (v, r3) \<Rightarrow>
                             (case skip_ws r3 of
                                [] \<Rightarrow> None
                              | c3 # r4 \<Rightarrow>
                                  if c3 = cp (CHR ''}'') then Some ([(k, v)], r4)
                                  else if c3 = cp (CHR '','') then
                                    (case parse_members n r4 of
                                       None \<Rightarrow> None
                                     | Some (kvs, rest) \<Rightarrow> Some ((k, v) # kvs, rest))
                                  else None)))))"

definition decode_fragment :: "pystr \<Rightarrow> exn + json" where
  "decode_fragment s =
     (case parse_value (2 * length s + 2) s of
        None \<Rightarrow> Inl (Exception (py ''Expecting value''))
      | Some (v, rest) \<Rightarrow>
          if skip_ws rest = [] then Inr v else Inl (Exception (py ''Extra data'')))"

text \<open>
  The \<open>str.lower\<close> of the example worlds, right on ASCII text, where only \<open>A\<close> to \<open>Z\<close>
  change; the examples lower no other text.
\<close>

definition ascii_lower :: "pystr \<Rightarrow> pystr" where
  "ascii_lower s = map (\<lambda>c. if 65 \<le> c \<and> c \<le> 90 then c + 32 else c) s"

text \<open>
  A world without a credential; a world with one whose endpoint answers every
  request with the one given text; and a world with one whose endpoint answers the
  requests in turn with the given texts. None has files; \<open>put_file\<close> adds one. The
  object at address \<open>n\<close> is an email with id \<open>n\<close> and no category.
\<close>

definition mail :: "int \<Rightarrow> pystr \<Rightarrow> pystr option \<Rightarrow> Email" where
  "mail n subj label =
     \<lparr>ident = n, from_addr = py ''ana@example.com'', to_addr = py ''user@company.com'',
      subject = subj, body = py ''Please confirm by Friday.'',
      timestamp = py ''2025-01-01T09:00:00'', raw_folder = py ''INBOX'', category = label\<rparr>"

definition offline_world :: world where
  "offline_world =
     \<lparr>environ = (\<lambda>name. None), files = (\<lambda>path. NoFile),
      now_isoformat = py ''2025-01-01T00:00:00'', json_loads = decode_fragment,
      str_lower = ascii_lower, str_of = (\<lambda>v. []),
      chat_completions = (\<lambda>before req. Inl (Exception (py ''offline''))),
      sent = [], objects = (\<lambda>n. mail (int n) (py ''Budget review'') None)\<rparr>"

definition answering_world :: "pystr \<Rightarrow> world" where
  "answering_world reply =
     offline_world
       \<lparr>environ := (\<lambda>name. if name = py ''OPENAI_API_KEY'' then Some (py ''sk-test'') else None),
        chat_completions := (\<lambda>before req. Inr [Some reply])\<rparr>"

definition scripted_world :: "pystr list \<Rightarrow> world" where
  "scripted_world replies =
     offline_world
       \<lparr>environ := (\<lambda>name. if name = py ''OPENAI_API_KEY'' then Some (py ''sk-test'') else None),
        chat_completions :=
          (\<lambda>before req. case drop (length before) replies of
                           [] \<Rightarrow> Inl (Exception (py ''no reply left''))
                         | reply # later \<Rightarrow> Inr [Some reply])\<rparr>"

definition put_file :: "world \<Rightarrow> pystr \<Rightarrow> pystr \<Rightarrow> world" where
  "put_file w path content = w\<lparr>files := (\<lambda>p. if p = path then Text content else files w p)\<rparr>"

text \<open>
  Responses of the endpoint: a refusal that is no JSON, an array of one task, the
  array wrapped in prose, and the array after prose that has brackets of its own.
\<close>

definition refusal :: pystr where
  "refusal = py ''sorry, I can'' @ SQ # py ''t help''"

definition book_room_array :: pystr where
  "book_room_array =
     py ''[{'' @ DQ # py ''task'' @ DQ # py '':'' @ DQ # py ''Book room'' @ DQ # py ''}]''"

definition wrapped_reply :: pystr where
  "wrapped_reply = py ''Here are the tasks:'' @ [NL] @ book_room_array @ [NL] @ py ''Let me know.''"

definition bracketed_reply :: pystr where
  "bracketed_reply = py ''Tasks [draft]: '' @ book_room_array"

text \<open>
  An inbox of seven emails, all labelled Important, and the answer to a query about
  important emails over it.
\<close>

definition seven_important :: "Email list" where
  "seven_important =
     map (\<lambda>n. mail n (py ''Budget review'') (Some (py ''Important''))) [1, 2, 3, 4, 5, 6, 7]"

definition seven_answer :: pystr where
  "seven_answer =
     [0x1F534] @ py '' **Important Emails (7):**'' @ [NL, NL]
     @ py ''- **ID 1**: Budget review (from ana@example.com)'' @ [NL]
     @ py ''- **ID 2**: Budget review (from ana@example.com)'' @ [NL]
     @ py ''- **ID 3**: Budget review (from ana@example.com)'' @ [NL]
     @ py ''- **ID 4**: Budget review (from ana@example.com)'' @ [NL]
     @ py ''- **ID 5**: Budget review (from ana@example.com)'' @ [NL]
     @ [NL] @ py ''... and 2 more''"

text \<open>The two files of the program, and a template file that holds one of the five keys.\<close>

definition prompts_path :: pystr where
  "prompts_path = py ''data/prompts.json''"

definition partial_store :: pystr where
  "partial_store =
     py ''{'' @ DQ # py ''summary'' @ DQ # py '': '' @ DQ # py ''Short.'' @ DQ # py ''}''"

definition inbox_path :: pystr where
  "inbox_path = py ''data/mock_inbox.json''"

text \<open>The email that an empty object of the inbox file loads as.\<close>

definition default_email :: "(json, json) Email_of" where
  "default_email =
     \<lparr>ident = JInt 0, from_addr = JStr (py ''unknown@example.com''),
      to_addr = JStr (py ''user@company.com''), subject = JStr (py ''No Subject''),
      body = JStr [], timestamp = JStr [], raw_folder = JStr (py ''INBOX''), category = None\<rparr>"

text \<open>
  Two emails, and a session of the emails at the addresses 1 and 2, with the
  credential seen or not when the session began.
\<close>

definition two_mails :: "Email list" where
  "two_mails =
     [mail 1 (py ''Budget review'') None, mail 2 (py ''Lunch'') (Some (py ''Newsletter''))]"

definition demo_session :: "bool \<Rightarrow> session" where
  "demo_session key_set =
     \<lparr>ss_emails = [1, 2], ss_prompts = get_default_prompts,
      ss_processed = (\<lambda>n. None), ss_api_key_set = key_set\<rparr>"

text \<open>The world of a pass over two emails: an endpoint with four answers in turn.\<close>

definition pass_world :: world where
  "pass_world = scripted_world [py ''Spam'', py ''[]'', py ''To-Do'', py ''[]'']"




section \<open>Lemmas on trimming and on the gateway\<close>

lemma cp_eq_iff [simp]: "(cp c = cp d) = (c = d)"
  by (simp add: cp_def)

lemma py_eq_iff [simp]: "(py s = py t) = (s = t)"
  by (simp add: py_def inj_map_eq_map inj_def)

lemma py_append [simp]: "py (s @ t) = py s @ py t"
  by (simp add: py_def)

lemma call_llm_try_frame:
  "snd (call_llm_try w s u m) = w\<lparr>sent := sent (snd (call_llm_try w s u m))\<rparr>"
  by (simp add: call_llm_try_def Let_def split: option.splits sum.splits list.splits)

lemma call_llm_frame:
  "snd (call_llm w s u m) = w\<lparr>sent := sent (snd (call_llm w s u m))\<rparr>"
  using call_llm_try_frame [of w s u m]
  by (cases "call_llm_try w s u m") (auto simp: call_llm_def split: sum.splits)

lemma call_llm_returns: "\<exists>text. fst (call_llm w s u m) = Inr text"
  by (cases "call_llm_try w s u m") (auto simp: call_llm_def split: sum.splits)

lemma call_llm_cases:
  obtains r w' where "call_llm w s u m = (Inr r, w')"
  using call_llm_returns [of w s u m] by (cases "call_llm w s u m") auto

lemma rstrip_take: "rstrip s = take (length (rstrip s)) s"
proof -
  have "dropWhile is_space (rev s) = drop (length (takeWhile is_space (rev s))) (rev s)"
    by (simp add: dropWhile_eq_drop)
  then have "rstrip s = take (length s - length (takeWhile is_space (rev s))) s"
    by (simp add: rstrip_def rev_drop)
  then show ?thesis
    by (metis append_eq_conv_conj append_take_drop_id)
qed

lemma hd_rstrip: "rstrip s \<noteq> [] \<Longrightarrow> hd (rstrip s) = hd s"
  by (metis rstrip_take hd_take length_greater_0_conv)

lemma lstrip_strip: "lstrip (strip s) = strip s"
proof (cases "strip s = []")
  case True
  then show ?thesis by (simp add: lstrip_def)
next
  case False
  then have ne: "rstrip (lstrip s) \<noteq> []" by (simp add: strip_def)
  then have "lstrip s \<noteq> []" by (auto simp: rstrip_def)
  then have "\<not> is_space (hd (lstrip s))"
    unfolding lstrip_def by (metis hd_dropWhile)
  then have "\<not> is_space (hd (strip s))"
    using hd_rstrip [OF ne] by (simp add: strip_def)
  then show ?thesis using False
    by (cases "strip s") (auto simp: lstrip_def)
qed

lemma lstrip_warning: "lstrip (warning_sign @ s) = warning_sign @ s"
  by (simp add: lstrip_def warning_sign_def is_space_def)

lemma lstrip_error_message: "lstrip (error_message w e) = error_message w e"
  by (cases e) (simp add: lstrip_warning)

lemma lstrip_call_llm_try:
  "call_llm_try w s u m = (Inr r, w') \<Longrightarrow> lstrip r = r"
  by (auto simp: call_llm_try_def Let_def no_api_key_message_def lstrip_warning lstrip_strip
      split: option.splits sum.splits list.splits if_splits)

lemma lstrip_call_llm:
  "call_llm w s u m = (Inr r, w') \<Longrightarrow> lstrip r = r"
  by (cases "call_llm_try w s u m")
     (auto simp: call_llm_def lstrip_error_message dest: lstrip_call_llm_try split: sum.splits)


lemma rstrip_Nil_iff: "(rstrip s = []) = (\<forall>c\<in>set s. is_space c)"
  by (auto simp: rstrip_def dropWhile_eq_Nil_conv)

lemma rstrip_append:
  "rstrip (xs @ ys) = (if rstrip ys = [] then rstrip xs else xs @ rstrip ys)"
  by (auto simp: rstrip_def dropWhile_append dropWhile_eq_Nil_conv)

lemma rstrip_idem: "rstrip (rstrip s) = rstrip s"
proof (cases "rstrip s = []")
  case True
  then show ?thesis by (simp add: rstrip_def)
next
  case False
  then have "dropWhile is_space (rev s) \<noteq> []" by (simp add: rstrip_def)
  then have "\<not> is_space (hd (dropWhile is_space (rev s)))" by (rule hd_dropWhile)
  then have "dropWhile is_space (dropWhile is_space (rev s)) = dropWhile is_space (rev s)"
    by (cases "dropWhile is_space (rev s)") auto
  then show ?thesis by (simp add: rstrip_def)
qed

lemma lstrip_rstrip: "lstrip (rstrip s) = rstrip (lstrip s)"
proof (cases "\<forall>c\<in>set s. is_space c")
  case True
  then have a: "rstrip s = []" and b: "lstrip s = []"
    by (auto simp: rstrip_Nil_iff lstrip_def dropWhile_eq_Nil_conv)
  have "lstrip [] = []" "rstrip [] = []" by (simp_all add: lstrip_def rstrip_def)
  then show ?thesis unfolding a b by simp
next
  case False
  define pre where "pre = takeWhile is_space s"
  define m where "m = dropWhile is_space s"
  have s: "s = pre @ m" by (simp add: pre_def m_def)
  have m_ne: "m \<noteq> []" using False by (auto simp: m_def dropWhile_eq_Nil_conv)
  have hd_m: "\<not> is_space (hd m)" using m_ne unfolding m_def by (rule hd_dropWhile)
  have "hd m \<in> set m" using m_ne by simp
  then have rm_ne: "rstrip m \<noteq> []" using hd_m by (auto simp: rstrip_Nil_iff)
  have hd_rm: "\<not> is_space (hd (rstrip m))" using hd_rstrip [OF rm_ne] hd_m by simp
  have pre_sp: "\<forall>c\<in>set pre. is_space c" by (auto simp: pre_def dest: set_takeWhileD)
  have "rstrip s = pre @ rstrip m" using rm_ne by (simp add: s rstrip_append)
  then have "lstrip (rstrip s) = dropWhile is_space (rstrip m)"
    using pre_sp by (simp add: lstrip_def dropWhile_append)
  also have "\<dots> = rstrip m" using rm_ne hd_rm by (cases "rstrip m") auto
  finally show ?thesis by (simp add: lstrip_def m_def)
qed

lemma strip_rstrip: "strip (rstrip s) = strip s"
  by (simp add: strip_def lstrip_rstrip rstrip_idem)

lemma first_line_no_NL: "NL \<notin> set s \<Longrightarrow> first_line s = s"
  by (auto simp: first_line_def takeWhile_eq_all_conv)

lemma first_line_split: "NL \<notin> set a \<Longrightarrow> first_line (a @ NL # b) = a"
  by (auto simp: first_line_def takeWhile_tail)

lemma is_space_NL: "is_space NL"
  by (simp add: is_space_def NL_def)

lemma set_rstrip: "set (rstrip s) \<subseteq> set s"
  by (metis rstrip_take set_take_subset)

lemma strip_first_line_rstrip: "strip (first_line (rstrip r)) = strip (first_line r)"
proof (cases "NL \<in> set r")
  case False
  then have "NL \<notin> set (rstrip r)" using set_rstrip by blast
  then show ?thesis using False by (simp add: first_line_no_NL strip_rstrip)
next
  case True
  then obtain a b where r: "r = a @ NL # b" and a: "NL \<notin> set a"
    by (meson split_list_first)
  show ?thesis
  proof (cases "rstrip (NL # b) = []")
    case True
    then have "rstrip r = rstrip a" by (simp add: r rstrip_append)
    moreover have "NL \<notin> set (rstrip a)" using a set_rstrip by blast
    ultimately show ?thesis using a by (simp add: r first_line_split first_line_no_NL strip_rstrip)
  next
    case False
    then have b: "rstrip b \<noteq> []"
      using rstrip_append [of "[NL]" b] is_space_NL by (auto simp: rstrip_def)
    then have "rstrip (NL # b) = NL # rstrip b"
      using rstrip_append [of "[NL]" b] by simp
    then have "rstrip r = a @ NL # rstrip b" using False by (simp add: r rstrip_append)
    then show ?thesis using a by (simp add: r first_line_split)
  qed
qed

lemma strip_first_line_strip:
  "lstrip r = r \<Longrightarrow> strip (first_line (strip r)) = strip (first_line r)"
  by (simp add: strip_def strip_first_line_rstrip [unfolded strip_def])

lemma get_email_by_id_None: "(get_email_by_id emails eid = None) = (eid \<notin> ident ` set emails)"
  by (induction emails) auto

lemma get_email_by_id_Some:
  "get_email_by_id emails eid = Some email \<Longrightarrow>
     \<exists>before after. emails = before @ email # after
        \<and> ident email = eid \<and> eid \<notin> ident ` set before"
proof (induction emails)
  case Nil
  then show ?case by simp
next
  case (Cons e es)
  show ?case
  proof (cases "ident e = eid")
    case True
    then have "email = e" using Cons.prems by simp
    then have "e # es = [] @ email # es \<and> ident email = eid \<and> eid \<notin> ident ` set []"
      using True by simp
    then show ?thesis by (intro exI)
  next
    case False
    then have "get_email_by_id es eid = Some email" using Cons.prems by simp
    then obtain before after where
      split: "es = before @ email # after" "ident email = eid" "eid \<notin> ident ` set before"
      using Cons.IH by blast
    have "e # es = (e # before) @ email # after \<and> ident email = eid
            \<and> eid \<notin> ident ` set (e # before)"
      using split False by simp
    then show ?thesis by (intro exI)
  qed
qed

section \<open>Lemmas on extract_action_items\<close>

lemma parse_action_items_decoder:
  "parse_action_items w response eid =
     (case json_loads w (decoder_input response) of
        Inl e \<Rightarrow> Inl e
      | Inr tasks_data \<Rightarrow>
          (case py_iter tasks_data of
             Inl e \<Rightarrow> Inl e
           | Inr elements \<Rightarrow> Inr (action_items_of elements eid)))"
  by (simp add: parse_action_items_def decoder_input_def Let_def)

lemma action_items_of_no_dict:
  "\<forall>x\<in>set xs. \<forall>d. x \<noteq> JObj d \<Longrightarrow> action_items_of xs eid = []"
  by (induction xs) (auto split: json.splits)

lemma parse_action_items_not_array:
  assumes "json_loads w (decoder_input response) = Inr v" and "\<forall>xs. v \<noteq> JArr xs"
  shows "(case parse_action_items w response eid of Inl e \<Rightarrow> [] | Inr items \<Rightarrow> items) = []"
  using assms
  by (cases v) (auto simp: parse_action_items_decoder action_items_of_no_dict)

lemma json_loads_call_llm:
  assumes "call_llm w s u m = (r, w')"
  shows "json_loads w' = json_loads w"
proof -
  have "w' = w\<lparr>sent := sent w'\<rparr>" using call_llm_frame [of w s u m] assms by simp
  then have "json_loads w' = json_loads (w\<lparr>sent := sent w'\<rparr>)" by simp
  then show ?thesis by simp
qed

lemma call_llm_with_json_cases:
  obtains r w' where "call_llm_with_json w s u m = (Inr r, w')" and "json_loads w' = json_loads w"
proof -
  obtain r w' where c: "call_llm w (s @ [NL, NL]
            @ py ''IMPORTANT: Respond with valid JSON only, no additional text.'') u m = (Inr r, w')"
    by (rule call_llm_cases)
  then have "call_llm_with_json w s u m = (Inr r, w')" by (simp add: call_llm_with_json_def)
  moreover have "json_loads w' = json_loads w" using c by (rule json_loads_call_llm)
  ultimately show ?thesis using that by blast
qed

lemma extract_action_items_result:
  assumes "call_llm_with_json w (dict_get prompts (py ''action_item'') (py ''Extract tasks from the email.''))
             (subject_from_body email) None = (Inr response, w')"
  shows "extract_action_items w email prompts =
           (Inr (case parse_action_items w' response (ident email) of
                   Inl e \<Rightarrow> [] | Inr items \<Rightarrow> items), w')"
  using assms by (simp add: extract_action_items_def Let_def split: sum.splits)

lemma parse_action_items_world:
  "json_loads w' = json_loads w \<Longrightarrow> parse_action_items w' r eid = parse_action_items w r eid"
  by (simp add: parse_action_items_def Let_def)

lemma action_items_of_objects:
  "action_items_of elements eid =
     [\<lparr>task = dict_get d (py ''task'') (JStr []), deadline = dict_get d (py ''deadline'') JNull,
       email_id = eid\<rparr>. JObj d \<leftarrow> elements]"
  by (induction elements) (auto split: json.splits)

lemma py_find_unique: "c \<notin> set pre \<Longrightarrow> py_find c (pre @ c # rest) = int (length pre)"
proof -
  assume "c \<notin> set pre"
  then have "takeWhile (\<lambda>x. x \<noteq> c) (pre @ c # rest) = pre"
    by (auto simp: takeWhile_tail)
  then show ?thesis by (simp add: py_find_def)
qed

lemma py_rfind_unique:
  "c \<notin> set post \<Longrightarrow> py_rfind c (pre @ c # post) = int (length pre)"
proof -
  assume "c \<notin> set post"
  then have "takeWhile (\<lambda>x. x \<noteq> c) (rev post @ c # rev pre) = rev post"
    by (auto simp: takeWhile_tail)
  then show ?thesis by (simp add: py_rfind_def)
qed

lemma decoder_input_wrapped:
  assumes "cp (CHR ''['') \<notin> set pre" and "cp (CHR '']'') \<notin> set post"
  shows "decoder_input (pre @ cp (CHR ''['') # mid @ cp (CHR '']'') # post) = cp (CHR ''['') # mid @ [cp (CHR '']'')]"
proof -
  let ?r = "pre @ cp (CHR ''['') # mid @ cp (CHR '']'') # post"
  have f: "py_find (cp (CHR ''['')) ?r = int (length pre)"
    using assms(1) by (rule py_find_unique)
  have "py_rfind (cp (CHR '']'')) ((pre @ cp (CHR ''['') # mid) @ cp (CHR '']'') # post)
          = int (length (pre @ cp (CHR ''['') # mid))"
    using assms(2) by (rule py_rfind_unique)
  then have r: "py_rfind (cp (CHR '']'')) ?r = int (length pre) + 1 + int (length mid)" by simp
  have n: "nat (int (length pre) + 1 + int (length mid) + 1) - nat (int (length pre))
             = Suc (Suc (length mid))"
    by simp
  have "slice ?r (int (length pre)) (int (length pre) + 1 + int (length mid) + 1)
          = cp (CHR ''['') # mid @ [cp (CHR '']'')]"
    unfolding slice_def n by simp
  then show ?thesis
    by (simp add: decoder_input_def Let_def f r)
qed

lemma refusal_response:
  "fst (call_llm_with_json (answering_world refusal)
          (dict_get get_default_prompts (py ''action_item'') (py ''Extract tasks from the email.''))
          (subject_from_body (mail 1 (py ''Hello'') None)) None) = Inr refusal"
  by code_simp

lemma refusal_not_json:
  "json_loads (answering_world refusal) (decoder_input refusal) = Inl (Exception (py ''Expecting value''))"
  by code_simp

lemma wrapped_response:
  "fst (call_llm_with_json (answering_world wrapped_reply)
          (dict_get get_default_prompts (py ''action_item'') (py ''Extract tasks from the email.''))
          (subject_from_body (mail 7 (py ''Room'') None)) None) = Inr wrapped_reply"
  by code_simp

lemma wrapped_decoded:
  "json_loads (answering_world wrapped_reply) (decoder_input wrapped_reply)
     = Inr (JArr [JObj [(py ''task'', JStr (py ''Book room''))]])"
  by code_simp

lemma seven_answer_run:
  "fst (run_agent_query offline_world (py ''Show me IMPORTANT emails'') None get_default_prompts
          seven_important) = Inr seven_answer"
  by code_simp

lemma no_important_run:
  "fst (run_agent_query offline_world (py ''Show me IMPORTANT emails'') None get_default_prompts
          two_mails) = Inr (py ''No emails marked as Important.'')"
  by code_simp

lemma default_prompts_keys: "\<forall>k\<in>set template_keys. has_key (dict_value get_default_prompts) k"
  by (simp add: template_keys_def dict_value_def get_default_prompts_def)

lemma load_items_objects:
  "load_items items =
     [\<lparr>ident = dict_get d (py ''id'') (JInt 0),
       from_addr = dict_get d (py ''from'') (JStr (py ''unknown@example.com'')),
       to_addr = dict_get d (py ''to'') (JStr (py ''user@company.com'')),
       subject = dict_get d (py ''subject'') (JStr (py ''No Subject'')),
       body = dict_get d (py ''body'') (JStr []),
       timestamp = dict_get d (py ''timestamp'') (JStr []),
       raw_folder = dict_get d (py ''raw_folder'') (JStr (py ''INBOX'')),
       category = None\<rparr>. JObj d \<leftarrow> items]"
  by (induction items) (auto simp: email_of_item_def split: json.splits)

section \<open>Lemmas on the processing pass\<close>

lemma categorize_email_result:
  "\<exists>response w'.
     call_llm w (dict_get prompts (py ''categorization'') (py ''Categorize this email.''))
       (subject_from_body email) None = (Inr response, w')
     \<and> categorize_email w email prompts = (Inr (spec_category response), w')
     \<and> spec_category response \<in> set valid_categories"
proof -
  obtain response w' where
    call: "call_llm w (dict_get prompts (py ''categorization'') (py ''Categorize this email.''))
             (subject_from_body email) None = (Inr response, w')"
    by (rule call_llm_cases)
  have "lstrip response = response" using call by (rule lstrip_call_llm)
  then have same: "strip (first_line (strip response)) = strip (first_line response)"
    by (rule strip_first_line_strip)
  have "categorize_email w email prompts = (Inr (spec_category response), w')"
    using call same by (simp add: categorize_email_def spec_category_def Let_def)
  moreover have "spec_category response \<in> set valid_categories"
    by (simp add: spec_category_def Let_def valid_categories_def)
  ultimately show ?thesis using call by blast
qed

lemma categorize_email_cases:
  obtains label w' where "categorize_email w email prompts = (Inr label, w')"
    and "label \<in> set valid_categories"
  using categorize_email_result [of w prompts email] by blast

lemma extract_action_items_cases:
  obtains items w' where "extract_action_items w email prompts = (Inr items, w')"
proof -
  obtain response w' where
    "call_llm_with_json w (dict_get prompts (py ''action_item'') (py ''Extract tasks from the email.''))
             (subject_from_body email) None = (Inr response, w')"
    by (rule call_llm_with_json_cases)
  then show ?thesis using that extract_action_items_result by blast
qed

lemma call_llm_world:
  assumes "call_llm w s u m = (r, w')"
  shows "w' = w\<lparr>sent := sent w'\<rparr>"
  using call_llm_frame [of w s u m] assms by simp

lemma objects_call_llm: "objects (snd (call_llm w s u m)) = objects w"
proof -
  obtain r w' where c: "call_llm w s u m = (r, w')" by (cases "call_llm w s u m")
  then have "objects w' = objects (w\<lparr>sent := sent w'\<rparr>)" using call_llm_world by metis
  then show ?thesis using c by simp
qed

lemma objects_categorize_email: "objects (snd (categorize_email w email prompts)) = objects w"
  using objects_call_llm
          [of w "dict_get prompts (py ''categorization'') (py ''Categorize this email.'')"
              "subject_from_body email" None]
  by (auto simp: categorize_email_def Let_def split: prod.splits sum.splits)

lemma objects_extract_action_items:
  "objects (snd (extract_action_items w email prompts)) = objects w"
  using objects_call_llm
          [of w "dict_get prompts (py ''action_item'') (py ''Extract tasks from the email.'') @ [NL, NL]
                 @ py ''IMPORTANT: Respond with valid JSON only, no additional text.''"
              "subject_from_body email" None]
  by (auto simp: extract_action_items_def call_llm_with_json_def Let_def
           split: prod.splits sum.splits)

lemma objects_summarize_email: "objects (snd (summarize_email w email prompts)) = objects w"
  by (simp add: summarize_email_def Let_def objects_call_llm)

lemma objects_draft_reply:
  "objects (snd (draft_reply w email prompts user_tone)) = objects w"
  using objects_call_llm [of w "reply_system_prompt prompts user_tone" "reply_user_content email" None]
  by (auto simp: draft_reply_def Let_def split: prod.splits sum.splits)

lemma objects_inbox_patterns:
  "objects (snd (inbox_patterns w query_lower system_prompt user_message inbox)) = objects w"
  by (simp add: inbox_patterns_def Let_def objects_call_llm)

lemma objects_run_agent_query:
  "objects (snd (run_agent_query w user_query selected_email prompts inbox)) = objects w"
proof (cases selected_email)
  case None
  then show ?thesis by (simp add: run_agent_query_def Let_def objects_inbox_patterns)
next
  case (Some email)
  have s: "objects (snd (summarize_email w email prompts)) = objects w"
    by (rule objects_summarize_email)
  have x: "objects (snd (extract_action_items w email prompts)) = objects w"
    by (rule objects_extract_action_items)
  show ?thesis
    using Some s x
    by (auto simp: run_agent_query_def Let_def objects_inbox_patterns
             split: prod.splits sum.splits)
qed

lemma process_emails_Cons:
  obtains label w1 actions w2 where
    "categorize_email w (objects w ref) prompts = (Inr label, w1)"
    "extract_action_items w1 (objects w1 ref) prompts = (Inr actions, w2)"
    "process_emails w prompts processed (ref # rest) =
       process_emails (assign_category w2 ref label) prompts
         (processed(ident (objects w2 ref) \<mapsto> (label, actions))) rest"
proof -
  obtain label w1 where
    cat: "categorize_email w (objects w ref) prompts = (Inr label, w1)"
    by (rule categorize_email_cases)
  obtain actions w2 where
    ext: "extract_action_items w1 (objects w1 ref) prompts = (Inr actions, w2)"
    by (rule extract_action_items_cases)
  show ?thesis using that [OF cat ext] cat ext by simp
qed

lemma process_emails_total:
  "\<exists>processed' w'. process_emails w prompts processed refs = (Inr (), processed', w')"
proof (induction refs arbitrary: w processed)
  case Nil
  show ?case by simp
next
  case (Cons ref rest)
  obtain label w1 actions w2 where
    "process_emails w prompts processed (ref # rest) =
       process_emails (assign_category w2 ref label) prompts
         (processed(ident (objects w2 ref) \<mapsto> (label, actions))) rest"
    by (rule process_emails_Cons)
  then show ?case using Cons.IH by simp
qed

lemma process_emails_append:
  "process_emails w prompts processed (xs @ ys) =
     (case process_emails w prompts processed xs of
        (Inl e, processed1, w1) \<Rightarrow> (Inl e, processed1, w1)
      | (Inr u, processed1, w1) \<Rightarrow> process_emails w1 prompts processed1 ys)"
  by (induction xs arbitrary: w processed) (auto split: prod.splits sum.splits)

lemma objects_assign_category:
  "objects (assign_category w ref label) a =
     (if a = ref then (objects w ref)\<lparr>category := Some label\<rparr> else objects w a)"
  by (simp add: assign_category_def)

lemma process_emails_frame:
  assumes "process_emails w prompts processed refs = (r, processed', w')"
  shows "(objects w' a)\<lparr>category := None\<rparr> = (objects w a)\<lparr>category := None\<rparr>
         \<and> (a \<notin> set refs \<longrightarrow> objects w' a = objects w a)"
  using assms
proof (induction refs arbitrary: w processed)
  case Nil
  then show ?case by simp
next
  case (Cons ref rest)
  obtain label w1 actions w2 where
    cat: "categorize_email w (objects w ref) prompts = (Inr label, w1)" and
    ext: "extract_action_items w1 (objects w1 ref) prompts = (Inr actions, w2)" and
    step: "process_emails w prompts processed (ref # rest) =
       process_emails (assign_category w2 ref label) prompts
         (processed(ident (objects w2 ref) \<mapsto> (label, actions))) rest"
    by (rule process_emails_Cons)
  have o1: "objects w1 = objects w" using objects_categorize_email [of w "objects w ref" prompts] cat by simp
  have o2: "objects w2 = objects w1"
    using objects_extract_action_items [of w1 "objects w1 ref" prompts] ext by simp
  have run: "process_emails (assign_category w2 ref label) prompts
         (processed(ident (objects w2 ref) \<mapsto> (label, actions))) rest = (r, processed', w')"
    using Cons.prems step by simp
  have ih: "(objects w' a)\<lparr>category := None\<rparr> = (objects (assign_category w2 ref label) a)\<lparr>category := None\<rparr>
         \<and> (a \<notin> set rest \<longrightarrow> objects w' a = objects (assign_category w2 ref label) a)"
    using Cons.IH [OF run] .
  show ?case using ih by (auto simp: objects_assign_category o1 o2)
qed

section \<open>Runs of the examples\<close>

lemma first_label:
  "fst (categorize_email pass_world (objects pass_world 1) get_default_prompts)
     = Inr (py ''Spam'')"
  by code_simp

lemma second_category:
  "category (objects (snd (snd (process_all_emails (demo_session True) pass_world))) 2)
     = Some (py ''To-Do'')"
  by code_simp





lemma formal_draft:
  "(case fst (draft_reply (answering_world (py ''Friday works for me.''))
               (mail 3 (py ''Meeting'') (Some (py ''To-Do''))) get_default_prompts (Some (py ''formal''))) of
      Inl e \<Rightarrow> False
    | Inr draft \<Rightarrow> draft_subject draft = py ''Re: Meeting''
        \<and> draft_body draft = py ''Friday works for me.''
        \<and> map_of (metadata draft) (py ''category'') = Some (Some (py ''To-Do'')))"
  by code_simp

lemma wrapped_isolated: "decoder_input wrapped_reply = book_room_array"
  by code_simp

lemma bracketed_isolated: "decoder_input bracketed_reply = py ''[draft]: '' @ book_room_array"
  by code_simp

lemma bracketed_not_json:
  "json_loads (answering_world bracketed_reply) (py ''[draft]: '' @ book_room_array)
     = Inl (Exception (py ''Expecting value''))"
  by code_simp

section \<open>The gateway\<close>

text \<open>
  C7. For every system prompt, user content and model override, in every world,
  \<open>call_llm\<close> ends with a text and never with an exception. When the variable
  \<open>OPENAI_API_KEY\<close> is unset or empty, the text is the fixed configuration message and
  the world is left as it was: no request is handed to the endpoint.
\<close>

theorem call_llm_never_raises:
  "(\<exists>response. fst (call_llm w system_prompt user_content model) = Inr response)
   \<and> (environ w (py ''OPENAI_API_KEY'') = None \<or> environ w (py ''OPENAI_API_KEY'') = Some []
        \<longrightarrow> call_llm w system_prompt user_content model = (Inr no_api_key_message, w))"
proof -
  have "environ w (py ''OPENAI_API_KEY'') = None \<or> environ w (py ''OPENAI_API_KEY'') = Some []
        \<longrightarrow> call_llm_try w system_prompt user_content model = (Inr no_api_key_message, w)"
    by (auto simp: call_llm_try_def)
  then show ?thesis
    using call_llm_returns [of w system_prompt user_content model]
    by (auto simp: call_llm_def)
qed

text \<open>The same in a world without a credential.\<close>

theorem call_llm_never_raises_witness:
  "environ offline_world (py ''OPENAI_API_KEY'') = None
   \<and> call_llm offline_world (py ''Be brief.'') (py ''Hello'') (Some (py ''gpt-4o''))
       = (Inr no_api_key_message, offline_world)
   \<and> sent (snd (call_llm offline_world (py ''Be brief.'') (py ''Hello'') (Some (py ''gpt-4o'')))) = []"
  using call_llm_never_raises [of offline_world "(py ''Be brief.'')" "(py ''Hello'')" "Some (py ''gpt-4o'')"]
  by (simp add: offline_world_def)

section \<open>The label of categorize_email\<close>



section \<open>extract_action_items on a response that does not decode\<close>

text \<open>
  C3. For every email, template set and world, \<open>extract_action_items\<close> ends with a list
  and never with an exception. When the decoder raises on the text handed to it (the
  response is no JSON), and when it returns a value that is not a list (a wrong
  shape: a dict, a text, a number, a bool or \<open>None\<close>), the list is empty.
\<close>

theorem extract_action_items_parse_failure:
  "\<exists>response w'.
     call_llm_with_json w (dict_get prompts (py ''action_item'') (py ''Extract tasks from the email.''))
       (subject_from_body email) None = (Inr response, w')
     \<and> (\<exists>items. extract_action_items w email prompts = (Inr items, w'))
     \<and> ((\<exists>e. json_loads w (decoder_input response) = Inl e)
          \<longrightarrow> extract_action_items w email prompts = (Inr [], w'))
     \<and> ((\<exists>v. json_loads w (decoder_input response) = Inr v \<and> (\<forall>xs. v \<noteq> JArr xs))
          \<longrightarrow> extract_action_items w email prompts = (Inr [], w'))"
proof -
  obtain response w' where
    call: "call_llm_with_json w (dict_get prompts (py ''action_item'') (py ''Extract tasks from the email.''))
             (subject_from_body email) None = (Inr response, w')"
    and same: "json_loads w' = json_loads w"
    by (rule call_llm_with_json_cases)
  have res: "extract_action_items w email prompts =
           (Inr (case parse_action_items w response (ident email) of
                   Inl e \<Rightarrow> [] | Inr items \<Rightarrow> items), w')"
    using extract_action_items_result [OF call] parse_action_items_world [OF same] by simp
  have "(\<exists>e. json_loads w (decoder_input response) = Inl e)
          \<longrightarrow> extract_action_items w email prompts = (Inr [], w')"
    by (auto simp: res parse_action_items_decoder)
  moreover have "(\<exists>v. json_loads w (decoder_input response) = Inr v \<and> (\<forall>xs. v \<noteq> JArr xs))
          \<longrightarrow> extract_action_items w email prompts = (Inr [], w')"
    using parse_action_items_not_array [of w response _ "ident email"] by (auto simp: res)
  ultimately show ?thesis using call res by blast
qed

text \<open>The refusal of the specification's example decodes to nothing and gives no task.\<close>

theorem extract_action_items_parse_failure_witness:
  "json_loads (answering_world refusal) (decoder_input refusal) = Inl (Exception (py ''Expecting value''))
   \<and> fst (extract_action_items (answering_world refusal) (mail 1 (py ''Hello'') None)
             get_default_prompts) = Inr []"
  using extract_action_items_parse_failure
          [of "answering_world refusal" get_default_prompts "mail 1 (py ''Hello'') None"]
        refusal_response refusal_not_json
  by auto

section \<open>extract_action_items on a response that holds an array\<close>

text \<open>
  C4, as amended. For every email, template set and world: when the text from the
  first \<open>[\<close> to the last \<open>]\<close> of the response decodes to an array,
  \<open>extract_action_items\<close> returns one ActionItem for each element that is an object, in
  order, and skips the other elements; its task is the field \<open>task\<close> (the empty text
  when missing), its deadline the field \<open>deadline\<close> (\<open>None\<close> when missing), its
  \<open>email_id\<close> the id of the email. That text is the array itself when the response is
  the array, or the array inside prose that has no \<open>[\<close> before it and no \<open>]\<close> after
  it.
\<close>

theorem extract_action_items_array:
  "\<exists>response w'.
     call_llm_with_json w (dict_get prompts (py ''action_item'') (py ''Extract tasks from the email.''))
       (subject_from_body email) None = (Inr response, w')
     \<and> (\<forall>elements. json_loads w (decoder_input response) = Inr (JArr elements)
          \<longrightarrow> extract_action_items w email prompts =
                (Inr [\<lparr>task = dict_get d (py ''task'') (JStr []),
                        deadline = dict_get d (py ''deadline'') JNull,
                        email_id = ident email\<rparr>. JObj d \<leftarrow> elements], w'))
     \<and> (\<forall>pre mid post.
            response = pre @ cp (CHR ''['') # mid @ cp (CHR '']'') # post
            \<and> cp (CHR ''['') \<notin> set pre \<and> cp (CHR '']'') \<notin> set post
          \<longrightarrow> decoder_input response = cp (CHR ''['') # mid @ [cp (CHR '']'')])"
proof -
  obtain response w' where
    call: "call_llm_with_json w (dict_get prompts (py ''action_item'') (py ''Extract tasks from the email.''))
             (subject_from_body email) None = (Inr response, w')"
    and same: "json_loads w' = json_loads w"
    by (rule call_llm_with_json_cases)
  have res: "extract_action_items w email prompts =
           (Inr (case parse_action_items w response (ident email) of
                   Inl e \<Rightarrow> [] | Inr items \<Rightarrow> items), w')"
    using extract_action_items_result [OF call] parse_action_items_world [OF same] by simp
  have "\<forall>elements. json_loads w (decoder_input response) = Inr (JArr elements)
          \<longrightarrow> extract_action_items w email prompts =
                (Inr [\<lparr>task = dict_get d (py ''task'') (JStr []),
                        deadline = dict_get d (py ''deadline'') JNull,
                        email_id = ident email\<rparr>. JObj d \<leftarrow> elements], w')"
    by (simp add: res parse_action_items_decoder action_items_of_objects)
  moreover have "\<forall>pre mid post.
            response = pre @ cp (CHR ''['') # mid @ cp (CHR '']'') # post
            \<and> cp (CHR ''['') \<notin> set pre \<and> cp (CHR '']'') \<notin> set post
          \<longrightarrow> decoder_input response = cp (CHR ''['') # mid @ [cp (CHR '']'')]"
    using decoder_input_wrapped by blast
  ultimately show ?thesis using call by blast
qed

text \<open>The array wrapped in prose, the second example of the specification.\<close>

theorem extract_action_items_array_witness:
  "decoder_input wrapped_reply = book_room_array
   \<and> json_loads (answering_world wrapped_reply) (decoder_input wrapped_reply)
     = Inr (JArr [JObj [(py ''task'', JStr (py ''Book room''))]])
   \<and> fst (extract_action_items (answering_world wrapped_reply) (mail 7 (py ''Room'') None)
             get_default_prompts)
       = Inr [\<lparr>task = JStr (py ''Book room''), deadline = JNull, email_id = 7\<rparr>]"
  using extract_action_items_array
          [of "answering_world wrapped_reply" get_default_prompts "mail 7 (py ''Room'') None"]
        wrapped_response wrapped_decoded wrapped_isolated
  by (auto simp: dict_get_def mail_def)

text \<open>
  C4 as stated fails when the prose has a bracket of its own: the response holds the
  well-formed array of one object after the words \<open>Tasks [draft]:\<close>, the text from the
  first \<open>[\<close> to the last \<open>]\<close> starts at \<open>[draft]\<close> and does not decode, and no task is
  returned.
\<close>

theorem extract_action_items_bracket_in_prose:
  "bracketed_reply = py ''Tasks [draft]: '' @ book_room_array
   \<and> json_loads (answering_world bracketed_reply) book_room_array
       = Inr (JArr [JObj [(py ''task'', JStr (py ''Book room''))]])
   \<and> fst (call_llm_with_json (answering_world bracketed_reply)
          (dict_get get_default_prompts (py ''action_item'') (py ''Extract tasks from the email.''))
          (subject_from_body (mail 7 (py ''Room'') None)) None) = Inr bracketed_reply
   \<and> decoder_input bracketed_reply = py ''[draft]: '' @ book_room_array
   \<and> json_loads (answering_world bracketed_reply) (py ''[draft]: '' @ book_room_array)
       = Inl (Exception (py ''Expecting value''))
   \<and> fst (extract_action_items (answering_world bracketed_reply) (mail 7 (py ''Room'') None)
             get_default_prompts) = Inr []"
proof -
  have "json_loads (answering_world bracketed_reply) book_room_array
       = Inr (JArr [JObj [(py ''task'', JStr (py ''Book room''))]])"
    by code_simp
  moreover have "fst (call_llm_with_json (answering_world bracketed_reply)
          (dict_get get_default_prompts (py ''action_item'') (py ''Extract tasks from the email.''))
          (subject_from_body (mail 7 (py ''Room'') None)) None) = Inr bracketed_reply"
    by code_simp
  moreover have "fst (extract_action_items (answering_world bracketed_reply) (mail 7 (py ''Room'') None)
             get_default_prompts) = Inr []"
    by code_simp
  ultimately show ?thesis
    using bracketed_isolated bracketed_not_json by (simp add: bracketed_reply_def)
qed

section \<open>The draft of a reply\<close>

text \<open>
  C5. For every email, template set, tone (given or not) and world, \<open>draft_reply\<close> ends
  with a draft whose subject is \<open>Re: \<close> followed by the subject of the email, whose
  body is the response of the gateway as it came, and whose metadata holds the
  sender, the subject and the category the email has at that moment.
\<close>

theorem draft_reply_record:
  "\<exists>response w' draft.
     call_llm w (reply_system_prompt prompts user_tone) (reply_user_content email) None
       = (Inr response, w')
     \<and> draft_reply w email prompts user_tone = (Inr draft, w')
     \<and> draft_subject draft = py ''Re: '' @ subject email
     \<and> draft_body draft = response
     \<and> original_email_id draft = ident email
     \<and> suggested_tone draft = user_tone
     \<and> map_of (metadata draft) (py ''original_from'') = Some (Some (from_addr email))
     \<and> map_of (metadata draft) (py ''original_subject'') = Some (Some (subject email))
     \<and> map_of (metadata draft) (py ''category'') = Some (category email)"
proof -
  obtain response w' where
    call: "call_llm w (reply_system_prompt prompts user_tone) (reply_user_content email) None
             = (Inr response, w')"
    by (rule call_llm_cases)
  then show ?thesis by (simp add: draft_reply_def Let_def)
qed

text \<open>A draft in a formal tone for an email labelled To-Do.\<close>

theorem draft_reply_record_witness:
  "(case fst (draft_reply (answering_world (py ''Friday works for me.''))
               (mail 3 (py ''Meeting'') (Some (py ''To-Do''))) get_default_prompts (Some (py ''formal''))) of
      Inl e \<Rightarrow> False
    | Inr draft \<Rightarrow> draft_subject draft = py ''Re: '' @ subject (mail 3 (py ''Meeting'') (Some (py ''To-Do'')))
        \<and> draft_body draft = py ''Friday works for me.''
        \<and> map_of (metadata draft) (py ''category'') = Some (Some (py ''To-Do'')))"
proof -
  obtain response w' draft where
    d: "draft_reply (answering_world (py ''Friday works for me.''))
          (mail 3 (py ''Meeting'') (Some (py ''To-Do''))) get_default_prompts (Some (py ''formal''))
        = (Inr draft, w')"
    and s: "draft_subject draft = py ''Re: '' @ subject (mail 3 (py ''Meeting'') (Some (py ''To-Do'')))"
    using draft_reply_record
            [of "answering_world (py ''Friday works for me.'')" get_default_prompts "Some (py ''formal'')"
                "mail 3 (py ''Meeting'') (Some (py ''To-Do''))"]
    by blast
  show ?thesis using formal_draft d s by simp
qed

section \<open>The query about important emails\<close>

text \<open>
  C6, as amended. For every query that mentions urgency or importance (its lowered
  text contains \<open>urgent\<close> or \<open>important\<close>) and that comes to this pattern in the order
  of the router (no email is selected, or the query matches neither the summarize
  pattern nor the tasks pattern), \<open>run_agent_query\<close> filters the inbox to the emails
  whose category is Important and leaves the world as it was, so the gateway is not
  called. With none found the answer is the fixed message. Otherwise it is the
  heading with their number and, for up to five of them, one bulleted line with the
  id, the subject and the sender; with more than five, the first five are listed and
  the answer ends with a new line and \<open>... and N more\<close>, \<open>N\<close> the number left out.
\<close>

theorem important_query_answer:
  assumes "contains (py ''urgent'') (str_lower w user_query)
           \<or> contains (py ''important'') (str_lower w user_query)"
    and "selected_email = None
         \<or> (\<not> ((contains (py ''summarize'') (str_lower w user_query)
                   \<or> contains (py ''summary'') (str_lower w user_query))
                  \<and> (contains (py ''this'') (str_lower w user_query)
                       \<or> contains (py ''email'') (str_lower w user_query)))
             \<and> \<not> ((contains (py ''task'') (str_lower w user_query)
                      \<or> contains (py ''to-do'') (str_lower w user_query)
                      \<or> contains (py ''action'') (str_lower w user_query))
                     \<and> (contains (py ''this'') (str_lower w user_query)
                          \<or> contains (py ''email'') (str_lower w user_query))))"
  shows "run_agent_query w user_query selected_email prompts inbox =
           (let found = filter (\<lambda>e. category e = Some (py ''Important'')) inbox;
                heading = [0x1F534] @ py '' **Important Emails ('' @ show_nat (length found)
                          @ py ''):**'' @ [NL, NL];
                line = (\<lambda>e. py ''- **ID '' @ show_int (ident e) @ py ''**: '' @ subject e
                            @ py '' (from '' @ from_addr e @ py '')'' @ [NL])
            in if found = [] then (Inr (py ''No emails marked as Important.''), w)
               else if length found \<le> 5
               then (Inr (heading @ concat (map line found)), w)
               else (Inr (heading @ concat (map line (take 5 found))
                          @ [NL] @ py ''... and '' @ show_nat (length found - 5) @ py '' more''),
                     w))"
proof -
  have "run_agent_query w user_query selected_email prompts inbox =
          inbox_patterns w (str_lower w user_query) (agent_system_prompt prompts)
            (agent_user_message user_query selected_email inbox) inbox"
    using assms(2)
    by (cases selected_email)
       (auto simp: run_agent_query_def summarize_pattern_def tasks_pattern_def Let_def)
  moreover have "important_pattern (str_lower w user_query)"
    using assms(1) by (simp add: important_pattern_def)
  moreover have "email_line = (\<lambda>e. py ''- **ID '' @ show_int (ident e) @ py ''**: '' @ subject e
                            @ py '' (from '' @ from_addr e @ py '')'' @ [NL])"
    by (rule ext) (simp add: email_line_def)
  ultimately show ?thesis
    by (auto simp: inbox_patterns_def listing_def important_heading_def Let_def)
qed

text \<open>
  Seven emails labelled Important: five are listed, each with its id, subject and
  sender, and the answer ends with 2 more. An inbox without an Important email gives
  the fixed message.
\<close>

theorem important_query_answer_witness:
  "(contains (py ''urgent'') (str_lower offline_world (py ''Show me IMPORTANT emails''))
    \<or> contains (py ''important'') (str_lower offline_world (py ''Show me IMPORTANT emails'')))
   \<and> run_agent_query offline_world (py ''Show me IMPORTANT emails'') None get_default_prompts
         seven_important
       = (Inr seven_answer, offline_world)
   \<and> run_agent_query offline_world (py ''Show me IMPORTANT emails'') None get_default_prompts
         two_mails
       = (Inr (py ''No emails marked as Important.''), offline_world)"
proof -
  have p: "contains (py ''urgent'') (str_lower offline_world (py ''Show me IMPORTANT emails''))
           \<or> contains (py ''important'')
                (str_lower offline_world (py ''Show me IMPORTANT emails''))"
    by code_simp
  have s7: "snd (run_agent_query offline_world (py ''Show me IMPORTANT emails'') None
                   get_default_prompts seven_important) = offline_world"
    using important_query_answer
            [OF p, of None get_default_prompts seven_important]
    by (simp add: Let_def split: if_splits)
  have s2: "snd (run_agent_query offline_world (py ''Show me IMPORTANT emails'') None
                   get_default_prompts two_mails) = offline_world"
    using important_query_answer
            [OF p, of None get_default_prompts two_mails]
    by (simp add: Let_def split: if_splits)
  show ?thesis
    using p s7 s2 seven_answer_run no_important_run by (simp add: prod_eq_iff)
qed

text \<open>
  C6 as stated fails in the suffix: with seven emails labelled Important the answer
  ends with \<open>... and 2 more\<close>, and the text \<open>...and 2 more\<close> of the claim occurs nowhere
  in it.
\<close>

theorem important_query_suffix:
  "fst (run_agent_query offline_world (py ''Show me IMPORTANT emails'') None get_default_prompts
          seven_important) = Inr seven_answer
   \<and> contains (py ''... and 2 more'') seven_answer
   \<and> \<not> contains (py ''...and 2 more'') seven_answer"
proof -
  have "contains (py ''... and 2 more'') seven_answer" by code_simp
  moreover have "\<not> contains (py ''...and 2 more'') seven_answer" by code_simp
  ultimately show ?thesis using seven_answer_run by simp
qed

section \<open>The templates that load_prompts returns\<close>

text \<open>
  C1, as amended. \<open>load_prompts\<close> always ends with a value. When the file is absent or
  cannot be read or decoded, the value is the built-in default set, which has all
  five keys (categorization, action_item, auto_reply, summary, general_agent). When
  the file decodes, the value is what the decoder returned, unchanged: a store that
  holds some of the five keys is returned with those keys only.
\<close>

theorem load_prompts_result:
  "(\<exists>loaded. load_prompts w path = Inr loaded)
   \<and> (files w path = NoFile \<or> (\<exists>e. files w path = Unreadable e)
        \<or> (\<exists>t e. files w path = Text t \<and> json_loads w t = Inl e)
       \<longrightarrow> load_prompts w path = Inr (dict_value get_default_prompts)
           \<and> (\<forall>k\<in>set template_keys. has_key (dict_value get_default_prompts) k))
   \<and> (\<forall>t loaded. files w path = Text t \<and> json_loads w t = Inr loaded
         \<longrightarrow> load_prompts w path = Inr loaded)"
  using default_prompts_keys
  by (auto simp: load_prompts_def load_prompts_try_def split: file_state.splits sum.splits)

text \<open>No file gives the defaults; a file with the one key \<open>summary\<close> is returned as it is.\<close>

theorem load_prompts_result_witness:
  "files offline_world prompts_path = NoFile
   \<and> load_prompts offline_world prompts_path = Inr (dict_value get_default_prompts)
   \<and> has_key (dict_value get_default_prompts) (py ''general_agent'')
   \<and> files (put_file offline_world prompts_path partial_store) prompts_path = Text partial_store
   \<and> json_loads (put_file offline_world prompts_path partial_store) partial_store
       = Inr (JObj [(py ''summary'', JStr (py ''Short.''))])
   \<and> load_prompts (put_file offline_world prompts_path partial_store) prompts_path
       = Inr (JObj [(py ''summary'', JStr (py ''Short.''))])"
proof -
  have a: "files offline_world prompts_path = NoFile" by (simp add: offline_world_def)
  have b: "files (put_file offline_world prompts_path partial_store) prompts_path
             = Text partial_store"
    by (simp add: put_file_def)
  have c: "json_loads (put_file offline_world prompts_path partial_store) partial_store
             = Inr (JObj [(py ''summary'', JStr (py ''Short.''))])"
    by code_simp
  have k: "(py ''general_agent'') \<in> set template_keys" by (simp add: template_keys_def)
  show ?thesis
    using load_prompts_result [of offline_world prompts_path]
      load_prompts_result [of "put_file offline_world prompts_path partial_store" prompts_path]
      a b c k
    by auto
qed

text \<open>
  C1 as stated fails on a partial store: the file holds only \<open>summary\<close>, and the set
  that \<open>load_prompts\<close> returns has no key \<open>categorization\<close>.
\<close>

theorem load_prompts_partial_store:
  "load_prompts (put_file offline_world prompts_path partial_store) prompts_path
     = Inr (JObj [(py ''summary'', JStr (py ''Short.''))])
   \<and> \<not> has_key (JObj [(py ''summary'', JStr (py ''Short.''))]) (py ''categorization'')"
proof -
  have "load_prompts (put_file offline_world prompts_path partial_store) prompts_path
     = Inr (JObj [(py ''summary'', JStr (py ''Short.''))])"
    by code_simp
  then show ?thesis by simp
qed

section \<open>The emails that load_inbox returns\<close>

text \<open>
  C8, as amended. \<open>load_inbox\<close> is total: it always ends with a list of emails, and
  the list is empty when the file is absent or cannot be read or decoded. When the
  file decodes to an array, each element that is an object loads as one email, in
  order, with the field of the object or else the default: \<open>from\<close>
  (unknown@example.com), \<open>to\<close> (user@company.com), \<open>subject\<close> (No Subject), \<open>body\<close> and
  \<open>timestamp\<close> (the empty text), \<open>raw_folder\<close> (INBOX), and also \<open>id\<close>, whose
  default is 0: no field is required.
\<close>

theorem load_inbox_total:
  "(\<exists>emails. load_inbox w path = Inr emails)
   \<and> (files w path = NoFile \<or> (\<exists>e. files w path = Unreadable e)
        \<or> (\<exists>t e. files w path = Text t \<and> json_loads w t = Inl e)
       \<longrightarrow> load_inbox w path = Inr [])
   \<and> (\<forall>t items. files w path = Text t \<and> json_loads w t = Inr (JArr items)
         \<longrightarrow> load_inbox w path =
               Inr [\<lparr>ident = dict_get d (py ''id'') (JInt 0),
                      from_addr = dict_get d (py ''from'') (JStr (py ''unknown@example.com'')),
                      to_addr = dict_get d (py ''to'') (JStr (py ''user@company.com'')),
                      subject = dict_get d (py ''subject'') (JStr (py ''No Subject'')),
                      body = dict_get d (py ''body'') (JStr []),
                      timestamp = dict_get d (py ''timestamp'') (JStr []),
                      raw_folder = dict_get d (py ''raw_folder'') (JStr (py ''INBOX'')),
                      category = None\<rparr>. JObj d \<leftarrow> items])"
proof -
  have "\<exists>emails. load_inbox w path = Inr emails"
    by (simp add: load_inbox_def split: sum.splits)
  moreover have "files w path = NoFile \<or> (\<exists>e. files w path = Unreadable e)
        \<or> (\<exists>t e. files w path = Text t \<and> json_loads w t = Inl e)
       \<longrightarrow> load_inbox w path = Inr []"
    by (auto simp: load_inbox_def load_inbox_try_def)
  moreover have "\<forall>t items. files w path = Text t \<and> json_loads w t = Inr (JArr items)
         \<longrightarrow> load_inbox w path = Inr (load_items items)"
    by (auto simp: load_inbox_def load_inbox_try_def)
  ultimately show ?thesis unfolding load_items_objects by blast
qed

text \<open>No file gives no email; the file \<open>[{}]\<close> gives one email, made of the defaults.\<close>

theorem load_inbox_total_witness:
  "files offline_world inbox_path = NoFile
   \<and> load_inbox offline_world inbox_path = Inr []
   \<and> files (put_file offline_world inbox_path (py ''[{}]'')) inbox_path = Text (py ''[{}]'')
   \<and> json_loads (put_file offline_world inbox_path (py ''[{}]'')) (py ''[{}]'') = Inr (JArr [JObj []])
   \<and> load_inbox (put_file offline_world inbox_path (py ''[{}]'')) inbox_path = Inr [default_email]"
proof -
  have a: "files offline_world inbox_path = NoFile" by (simp add: offline_world_def)
  have b: "files (put_file offline_world inbox_path (py ''[{}]'')) inbox_path = Text (py ''[{}]'')"
    by (simp add: put_file_def)
  have c: "json_loads (put_file offline_world inbox_path (py ''[{}]'')) (py ''[{}]'') = Inr (JArr [JObj []])"
    by code_simp
  show ?thesis
    using load_inbox_total [of offline_world inbox_path]
      load_inbox_total [of "put_file offline_world inbox_path (py ''[{}]'')" inbox_path]
      a b c
    by (auto simp: default_email_def dict_get_def)
qed

text \<open>
  C8 as stated fails on an object without \<open>id\<close>: it loads, and its id is 0, so \<open>id\<close>
  has a default like the other fields.
\<close>

theorem load_inbox_item_without_id:
  "load_inbox (put_file offline_world inbox_path (py ''[{}]'')) inbox_path = Inr [default_email]
   \<and> ident default_email = JInt 0"
proof -
  have "load_inbox (put_file offline_world inbox_path (py ''[{}]'')) inbox_path = Inr [default_email]"
    by code_simp
  then show ?thesis by (simp add: default_email_def)
qed

section \<open>What a processing pass writes\<close>

text \<open>
  C9, as amended. Every Email object is immutable under the operations of the
  pipeline, its category included: \<open>categorize_email\<close>, \<open>extract_action_items\<close>,
  \<open>summarize_email\<close> and \<open>draft_reply\<close> write no field of any Email object, and neither does
  \<open>run_agent_query\<close>. The field \<open>category\<close> is written by \<open>process_all_emails\<close>, once for
  each email of the session in a pass that runs (the session saw a credential; a
  session that saw none returns at once and changes nothing). Such a pass ends without
  an exception, every Email object keeps all its fields but \<open>category\<close>, and the
  objects that are not in the session are untouched. For each email of the session,
  in order: in the world the pass has reached after the emails before it,
  \<open>categorize_email\<close> returns a label for it, \<open>extract_action_items\<close> returns its
  actions, and then the pass itself stores both under the id and assigns that label
  to \<open>category\<close> of the object; the object still has that label at the end of the
  pass when its address does not come again later in the list.
\<close>

theorem process_all_emails_category:
  "objects (snd (categorize_email w email prompts)) = objects w
   \<and> objects (snd (extract_action_items w email prompts)) = objects w
   \<and> objects (snd (summarize_email w email prompts)) = objects w
   \<and> objects (snd (draft_reply w email prompts user_tone)) = objects w
   \<and> objects (snd (run_agent_query w user_query selected_email prompts inbox)) = objects w
   \<and> (\<not> ss_api_key_set st \<longrightarrow> process_all_emails st w = (Inr (), st, w))
   \<and> (ss_api_key_set st \<longrightarrow>
        (\<exists>processed' w'.
           process_all_emails st w = (Inr (), st\<lparr>ss_processed := processed'\<rparr>, w')
           \<and> (\<forall>a. (objects w' a)\<lparr>category := None\<rparr> = (objects w a)\<lparr>category := None\<rparr>)
           \<and> (\<forall>a. a \<notin> set (ss_emails st) \<longrightarrow> objects w' a = objects w a)
           \<and> (\<forall>before ref after. ss_emails st = before @ ref # after \<longrightarrow>
                (\<exists>processed1 w1 label w2 actions w3.
                   process_emails w (ss_prompts st) (ss_processed st) before
                     = (Inr (), processed1, w1)
                   \<and> categorize_email w1 (objects w1 ref) (ss_prompts st) = (Inr label, w2)
                   \<and> extract_action_items w2 (objects w2 ref) (ss_prompts st)
                       = (Inr actions, w3)
                   \<and> process_emails w (ss_prompts st) (ss_processed st) (before @ [ref])
                       = (Inr (), processed1(ident (objects w3 ref) \<mapsto> (label, actions)),
                          assign_category w3 ref label)
                   \<and> (ref \<notin> set after \<longrightarrow> category (objects w' ref) = Some label)))))"
proof -
  let ?p = "ss_prompts st"
  obtain processed' w' where
    run: "process_emails w ?p (ss_processed st) (ss_emails st) = (Inr (), processed', w')"
    using process_emails_total by blast
  have gate: "\<not> ss_api_key_set st \<longrightarrow> process_all_emails st w = (Inr (), st, w)"
    by (simp add: process_all_emails_def)
  have pass: "ss_api_key_set st \<longrightarrow>
      process_all_emails st w = (Inr (), st\<lparr>ss_processed := processed'\<rparr>, w')"
    using run by (simp add: process_all_emails_def)
  have frame: "\<forall>a. (objects w' a)\<lparr>category := None\<rparr> = (objects w a)\<lparr>category := None\<rparr>"
    using process_emails_frame [OF run] by blast
  have others: "\<forall>a. a \<notin> set (ss_emails st) \<longrightarrow> objects w' a = objects w a"
    using process_emails_frame [OF run] by blast
  have steps: "\<forall>before ref after. ss_emails st = before @ ref # after \<longrightarrow>
                (\<exists>processed1 w1 label w2 actions w3.
                   process_emails w ?p (ss_processed st) before = (Inr (), processed1, w1)
                   \<and> categorize_email w1 (objects w1 ref) ?p = (Inr label, w2)
                   \<and> extract_action_items w2 (objects w2 ref) ?p = (Inr actions, w3)
                   \<and> process_emails w ?p (ss_processed st) (before @ [ref])
                       = (Inr (), processed1(ident (objects w3 ref) \<mapsto> (label, actions)),
                          assign_category w3 ref label)
                   \<and> (ref \<notin> set after \<longrightarrow> category (objects w' ref) = Some label))"
  proof (intro allI impI)
    fix before ref after
    assume split: "ss_emails st = before @ ref # after"
    obtain processed1 w1 where
      pre: "process_emails w ?p (ss_processed st) before = (Inr (), processed1, w1)"
      using process_emails_total by blast
    obtain label w2 actions w3 where
      cat: "categorize_email w1 (objects w1 ref) ?p = (Inr label, w2)" and
      ext: "extract_action_items w2 (objects w2 ref) ?p = (Inr actions, w3)" and
      step: "process_emails w1 ?p processed1 (ref # after) =
         process_emails (assign_category w3 ref label) ?p
           (processed1(ident (objects w3 ref) \<mapsto> (label, actions))) after"
      by (rule process_emails_Cons)
    have one: "process_emails w1 ?p processed1 [ref]
                 = (Inr (), processed1(ident (objects w3 ref) \<mapsto> (label, actions)),
                    assign_category w3 ref label)"
      using cat ext by simp
    have upto: "process_emails w ?p (ss_processed st) (before @ [ref])
                 = (Inr (), processed1(ident (objects w3 ref) \<mapsto> (label, actions)),
                    assign_category w3 ref label)"
      using pre one by (simp add: process_emails_append)
    have "process_emails w ?p (ss_processed st) (before @ ref # after)
            = process_emails w1 ?p processed1 (ref # after)"
      using pre by (simp add: process_emails_append)
    then have rest: "process_emails (assign_category w3 ref label) ?p
           (processed1(ident (objects w3 ref) \<mapsto> (label, actions))) after
             = (Inr (), processed', w')"
      using run split step by simp
    have "ref \<notin> set after \<longrightarrow> objects w' ref = objects (assign_category w3 ref label) ref"
      using process_emails_frame [OF rest] by blast
    then have last: "ref \<notin> set after \<longrightarrow> category (objects w' ref) = Some label"
      by (simp add: objects_assign_category)
    show "\<exists>processed1 w1 label w2 actions w3.
                   process_emails w ?p (ss_processed st) before = (Inr (), processed1, w1)
                   \<and> categorize_email w1 (objects w1 ref) ?p = (Inr label, w2)
                   \<and> extract_action_items w2 (objects w2 ref) ?p = (Inr actions, w3)
                   \<and> process_emails w ?p (ss_processed st) (before @ [ref])
                       = (Inr (), processed1(ident (objects w3 ref) \<mapsto> (label, actions)),
                          assign_category w3 ref label)
                   \<and> (ref \<notin> set after \<longrightarrow> category (objects w' ref) = Some label)"
      using pre cat ext upto last by blast
  qed
  have keyed: "ss_api_key_set st \<longrightarrow>
        (\<exists>processed' w'.
           process_all_emails st w = (Inr (), st\<lparr>ss_processed := processed'\<rparr>, w')
           \<and> (\<forall>a. (objects w' a)\<lparr>category := None\<rparr> = (objects w a)\<lparr>category := None\<rparr>)
           \<and> (\<forall>a. a \<notin> set (ss_emails st) \<longrightarrow> objects w' a = objects w a)
           \<and> (\<forall>before ref after. ss_emails st = before @ ref # after \<longrightarrow>
                (\<exists>processed1 w1 label w2 actions w3.
                   process_emails w ?p (ss_processed st) before = (Inr (), processed1, w1)
                   \<and> categorize_email w1 (objects w1 ref) ?p = (Inr label, w2)
                   \<and> extract_action_items w2 (objects w2 ref) ?p = (Inr actions, w3)
                   \<and> process_emails w ?p (ss_processed st) (before @ [ref])
                       = (Inr (), processed1(ident (objects w3 ref) \<mapsto> (label, actions)),
                          assign_category w3 ref label)
                   \<and> (ref \<notin> set after \<longrightarrow> category (objects w' ref) = Some label))))"
    using pass frame others steps by blast
  have f1: "objects (snd (categorize_email w email prompts)) = objects w"
    by (rule objects_categorize_email)
  have f2: "objects (snd (extract_action_items w email prompts)) = objects w"
    by (rule objects_extract_action_items)
  have f3: "objects (snd (summarize_email w email prompts)) = objects w"
    by (rule objects_summarize_email)
  have f4: "objects (snd (draft_reply w email prompts user_tone)) = objects w"
    by (rule objects_draft_reply)
  have f5: "objects (snd (run_agent_query w user_query selected_email prompts inbox)) = objects w"
    by (rule objects_run_agent_query)
  from f1 f2 f3 f4 f5 gate keyed show ?thesis
    by (intro conjI)
qed

text \<open>
  A pass over the emails at the addresses 1 and 2 with an endpoint that answers Spam,
  no task, To-Do, no task: the first email gets the label that \<open>categorize_email\<close>
  returns for it in the world the pass starts in, the second gets To-Do. The same
  pass in a session that saw no credential changes nothing.
\<close>

theorem process_all_emails_category_witness:
  "ss_api_key_set (demo_session True)
   \<and> ss_emails (demo_session True) = [] @ 1 # [2]
   \<and> fst (process_all_emails (demo_session True) pass_world) = Inr ()
   \<and> fst (categorize_email pass_world (objects pass_world 1) get_default_prompts)
       = Inr (py ''Spam'')
   \<and> category (objects (snd (snd (process_all_emails (demo_session True) pass_world))) 1)
       = Some (py ''Spam'')
   \<and> category (objects (snd (snd (process_all_emails (demo_session True) pass_world))) 2)
       = Some (py ''To-Do'')
   \<and> \<not> ss_api_key_set (demo_session False)
   \<and> process_all_emails (demo_session False) pass_world
       = (Inr (), demo_session False, pass_world)"
proof -
  let ?st = "demo_session True"
  have key: "ss_api_key_set ?st" by (simp add: demo_session_def)
  have list: "ss_emails ?st = [] @ 1 # [2]" by (simp add: demo_session_def)
  have p: "ss_prompts ?st = get_default_prompts" by (simp add: demo_session_def)
  obtain processed' w' where
    run: "process_all_emails ?st pass_world = (Inr (), ?st\<lparr>ss_processed := processed'\<rparr>, w')"
    and steps: "\<forall>before ref after. ss_emails ?st = before @ ref # after \<longrightarrow>
                (\<exists>processed1 w1 label w2 actions w3.
                   process_emails pass_world (ss_prompts ?st) (ss_processed ?st) before
                     = (Inr (), processed1, w1)
                   \<and> categorize_email w1 (objects w1 ref) (ss_prompts ?st) = (Inr label, w2)
                   \<and> extract_action_items w2 (objects w2 ref) (ss_prompts ?st)
                       = (Inr actions, w3)
                   \<and> process_emails pass_world (ss_prompts ?st) (ss_processed ?st)
                         (before @ [ref])
                       = (Inr (), processed1(ident (objects w3 ref) \<mapsto> (label, actions)),
                          assign_category w3 ref label)
                   \<and> (ref \<notin> set after \<longrightarrow> category (objects w' ref) = Some label))"
    using process_all_emails_category
            [where st = ?st and w = pass_world and email = "objects pass_world 1"
               and prompts = get_default_prompts and user_tone = None and user_query = "[]"
               and selected_email = None and inbox = "[]"]
          key
    by blast
  obtain processed1 w1 label w2 where
    pre: "process_emails pass_world (ss_prompts ?st) (ss_processed ?st) [] = (Inr (), processed1, w1)"
    and cat: "categorize_email w1 (objects w1 1) (ss_prompts ?st) = (Inr label, w2)"
    and last: "1 \<notin> set [2::nat] \<longrightarrow> category (objects w' 1) = Some label"
    using steps list by blast
  have "w1 = pass_world" using pre by simp
  then have "label = py ''Spam''" using cat p first_label by simp
  then have one: "category (objects w' 1) = Some (py ''Spam'')" using last by simp
  have "\<not> ss_api_key_set (demo_session False)" by (simp add: demo_session_def)
  then have gate: "process_all_emails (demo_session False) pass_world
                     = (Inr (), demo_session False, pass_world)"
    using process_all_emails_category
            [where st = "demo_session False" and w = pass_world
               and email = "objects pass_world 1" and prompts = get_default_prompts
               and user_tone = None and user_query = "[]" and selected_email = None
               and inbox = "[]"]
    by blast
  show ?thesis
    using key list run one gate first_label second_category
    by (simp add: demo_session_def)
qed

text \<open>
  C9 as stated fails in who writes the category: after \<open>categorize_email\<close> has returned
  the label Spam for the email at address 1, the object still has no category; it
  has the label after the pass, written by \<open>process_all_emails\<close>.
\<close>

theorem categorize_email_writes_nothing:
  "category (objects pass_world 1) = None
   \<and> fst (categorize_email pass_world (objects pass_world 1) get_default_prompts)
       = Inr (py ''Spam'')
   \<and> category (objects (snd (categorize_email pass_world (objects pass_world 1)
                                get_default_prompts)) 1) = None
   \<and> category (objects (snd (snd (process_all_emails (demo_session True) pass_world))) 1)
       = Some (py ''Spam'')"
proof -
  have "category (objects pass_world 1) = None" by code_simp
  moreover have "category (objects (snd (categorize_email pass_world (objects pass_world 1)
                                get_default_prompts)) 1) = None"
    by code_simp
  moreover have "category (objects (snd (snd (process_all_emails (demo_session True)
                                                pass_world))) 1) = Some (py ''Spam'')"
    by code_simp
  ultimately show ?thesis using first_label by simp
qed

section \<open>The lookup by id\<close>

text \<open>
  C10. For every list of emails and every integer id, \<open>get_email_by_id\<close> returns the
  first email of the list whose \<open>id\<close> equals the given one: the emails before it have
  other ids. It returns \<open>None\<close> exactly when no email of the list has that id, so the
  result is an optional Email, not the \<open>Email\<close> the signature declares.
\<close>

theorem get_email_by_id_first:
  "(case get_email_by_id emails eid of
      None \<Rightarrow> eid \<notin> ident ` set emails
    | Some email \<Rightarrow>
        (\<exists>before after. emails = before @ email # after
           \<and> ident email = eid \<and> eid \<notin> ident ` set before))"
proof (cases "get_email_by_id emails eid")
  case None
  then show ?thesis using get_email_by_id_None [of emails eid] by simp
next
  case (Some email)
  then show ?thesis using get_email_by_id_Some [of emails eid email] by simp
qed

text \<open>A lookup that finds the second of two emails, and one that finds none.\<close>

theorem get_email_by_id_first_witness:
  "get_email_by_id two_mails 2 = Some (mail 2 (py ''Lunch'') (Some (py ''Newsletter'')))
   \<and> two_mails = [mail 1 (py ''Budget review'') None] @ mail 2 (py ''Lunch'') (Some (py ''Newsletter'')) # []
   \<and> get_email_by_id two_mails 5 = None
   \<and> 5 \<notin> ident ` set two_mails"
  using get_email_by_id_first [where emails = two_mails and eid = 2]
    get_email_by_id_first [where emails = two_mails and eid = 5]
  by (simp add: two_mails_def mail_def)

end
